theory Spec2Isabelle
  imports Main "HOL-Library.Word"
begin

unbundle bit_operations_syntax

section \<open>Bytes, strings and errors\<close>

text \<open>
  A Go \<^verbatim>\<open>[]byte\<close> is a list of 8-bit words; a Go \<^verbatim>\<open>string\<close> is a \<^typ>\<open>string\<close>
  (a list of 8-bit characters), turned into bytes by \<open>bytes_of\<close> where the source
  converts (\<^verbatim>\<open>[]byte(s)\<close>, \<^verbatim>\<open>buf.WriteString\<close>). The platform is a 64-bit one:
  \<^verbatim>\<open>int\<close> has 64 bits, so \<^verbatim>\<open>int(paramsLen)\<close> of a \<^verbatim>\<open>uint32\<close> is never negative.
\<close>

type_synonym byte = "8 word"
type_synonym bytes = "byte list"
type_synonym path = string

definition bytes_of :: "string \<Rightarrow> bytes" where
  "bytes_of s = map (\<lambda>c. of_char c) s"

datatype error =
    InvalidKeySize nat
  | CreateCipherFailed
  | NonceGenerationFailed
  | CiphertextTooShort
  | DecryptionFailed
  | SaltGenerationFailed
  | ReadFileFailed
  | VaultTooSmall
  | WrongHeader
  | ReadVersionFailed
  | UnsupportedVersion "32 word"
  | ReadParamsLengthFailed
  | ParamsTooShort
  | UnmarshalParamsFailed
  | DecryptVaultFailed error
  | UnmarshalVaultFailed
  | MkdirFailed
  | MarshalVaultFailed
  | EncryptVaultFailed error
  | MarshalParamsFailed
  | WriteTempFailed
  | RenameFailed
  | LoadParamsFailed error
  | UnlockFailed error

section \<open>The libraries the repository calls\<close>

text \<open>
  AES-GCM (\<^verbatim>\<open>crypto/cipher\<close>), Argon2id (\<^verbatim>\<open>golang.org/x/crypto/argon2\<close>) and
  \<^verbatim>\<open>encoding/json\<close> are not code of the repository. The model takes them as
  parameters: \<open>gcm_Seal key nonce plaintext\<close> and \<open>gcm_Open key nonce ciphertext\<close> are
  \<^verbatim>\<open>gcm.Seal(nil, nonce, plaintext, nil)\<close> and \<^verbatim>\<open>gcm.Open(nil, nonce, ciphertext, nil)\<close>
  of the GCM built on the AES cipher of \<open>key\<close>; \<open>argon2_IDKey\<close> is \<^verbatim>\<open>argon2.IDKey\<close>.
\<close>

record KeyDerivationParams =
  KdfAlgorithm :: string
  Iterations :: "32 word"
  Memory :: "32 word"
  Parallelism :: "8 word"
  Salt :: bytes
  KeyLength :: "32 word"

record crypto_lib =
  gcm_Seal :: "bytes \<Rightarrow> bytes \<Rightarrow> bytes \<Rightarrow> bytes"
  gcm_Open :: "bytes \<Rightarrow> bytes \<Rightarrow> bytes \<Rightarrow> bytes option"
  argon2_IDKey :: "bytes \<Rightarrow> bytes \<Rightarrow> 32 word \<Rightarrow> 32 word \<Rightarrow> 8 word \<Rightarrow> 32 word \<Rightarrow> bytes"

record 'v json_lib =
  json_Marshal_vault :: "'v \<Rightarrow> bytes option"
  json_Unmarshal_vault :: "bytes \<Rightarrow> 'v option"
  json_Marshal_params :: "KeyDerivationParams \<Rightarrow> bytes option"
  json_Unmarshal_params :: "bytes \<Rightarrow> KeyDerivationParams option"

text \<open>
  The random source is the sequence of bytes \<^verbatim>\<open>crypto/rand\<close> delivers next.
  \<^verbatim>\<open>io.ReadFull\<close> (and \<^verbatim>\<open>rand.Read\<close>) fills a buffer of \<open>n\<close> bytes or fails.
\<close>

definition io_ReadFull :: "bytes \<Rightarrow> nat \<Rightarrow> bytes option" where
  "io_ReadFull src n = (if length src < n then None else Some (take n src))"

section \<open>The cipher module\<close>

definition gcm_NonceSize :: nat where
  "gcm_NonceSize = 12"

text \<open>\<^verbatim>\<open>aes.NewCipher\<close> accepts keys of 16, 24 and 32 bytes.\<close>

definition aes_NewCipher :: "bytes \<Rightarrow> error + bytes" where
  "aes_NewCipher key =
     (if length key = 16 \<or> length key = 24 \<or> length key = 32 then Inr key
      else Inl CreateCipherFailed)"

definition Encrypt :: "crypto_lib \<Rightarrow> bytes \<Rightarrow> bytes \<Rightarrow> bytes \<Rightarrow> error + bytes" where
  "Encrypt L rnd plaintext key =
     (if length key \<noteq> 32 then Inl (InvalidKeySize (length key))
      else case aes_NewCipher key of
        Inl e \<Rightarrow> Inl e
      | Inr block \<Rightarrow>
          (case io_ReadFull rnd gcm_NonceSize of
             None \<Rightarrow> Inl NonceGenerationFailed
           | Some nonce \<Rightarrow> Inr (nonce @ gcm_Seal L block nonce plaintext)))"

definition Decrypt :: "crypto_lib \<Rightarrow> bytes \<Rightarrow> bytes \<Rightarrow> error + bytes" where
  "Decrypt L encrypted key =
     (if length key \<noteq> 32 then Inl (InvalidKeySize (length key))
      else case aes_NewCipher key of
        Inl e \<Rightarrow> Inl e
      | Inr block \<Rightarrow>
          if length encrypted < gcm_NonceSize then Inl CiphertextTooShort
          else (case gcm_Open L block (take gcm_NonceSize encrypted)
                       (drop gcm_NonceSize encrypted) of
                  None \<Rightarrow> Inl DecryptionFailed
                | Some plaintext \<Rightarrow> Inr plaintext))"

section \<open>The key-derivation module\<close>

definition DefaultKeyDerivationParams :: "bytes \<Rightarrow> error + KeyDerivationParams" where
  "DefaultKeyDerivationParams rnd =
     (case io_ReadFull rnd 32 of
        None \<Rightarrow> Inl SaltGenerationFailed
      | Some salt \<Rightarrow>
          Inr \<lparr>KdfAlgorithm = ''argon2id'', Iterations = 3, Memory = 64 * 1024,
               Parallelism = 4, Salt = salt, KeyLength = 32\<rparr>)"

definition DeriveKey :: "crypto_lib \<Rightarrow> string \<Rightarrow> KeyDerivationParams \<Rightarrow> bytes" where
  "DeriveKey L masterPassword params =
     argon2_IDKey L (bytes_of masterPassword) (Salt params) (Iterations params)
       (Memory params) (Parallelism params) (KeyLength params)"


definition UnmarshalParams :: "'v json_lib \<Rightarrow> bytes \<Rightarrow> error + KeyDerivationParams" where
  "UnmarshalParams J data =
     (case json_Unmarshal_params J data of
        None \<Rightarrow> Inl UnmarshalParamsFailed
      | Some params \<Rightarrow> Inr params)"

section \<open>The container codec\<close>

definition VaultHeader :: string where
  "VaultHeader = ''PMVAULT1''"

definition VaultVersion :: "32 word" where
  "VaultVersion = 1"

text \<open>\<^verbatim>\<open>binary.Write(buf, binary.LittleEndian, v)\<close> of a \<^verbatim>\<open>uint32\<close>.\<close>

definition le32 :: "32 word \<Rightarrow> bytes" where
  "le32 w = [ucast w, ucast (drop_bit 8 w), ucast (drop_bit 16 w), ucast (drop_bit 24 w)]"

text \<open>
  \<^verbatim>\<open>binary.Read(bytes.NewReader(b), binary.LittleEndian, &v)\<close> of a \<^verbatim>\<open>uint32\<close>: it
  fails when the reader holds fewer than four bytes.
\<close>

definition read_le32 :: "bytes \<Rightarrow> 32 word option" where
  "read_le32 b =
     (case b of
        b0 # b1 # b2 # b3 # _ \<Rightarrow>
          Some (ucast b0 OR push_bit 8 (ucast b1) OR push_bit 16 (ucast b2)
                  OR push_bit 24 (ucast b3))
      | _ \<Rightarrow> None)"

text \<open>
  The buffer \<^verbatim>\<open>Save\<close> builds (lines 124 to 151 of the storage package): header, version,
  length of the parameters as a \<^verbatim>\<open>uint32\<close> (the conversion \<^verbatim>\<open>uint32(len(paramsJSON))\<close>
  keeps the low 32 bits), the parameters, the encrypted data.
\<close>

definition encode_container :: "bytes \<Rightarrow> bytes \<Rightarrow> bytes" where
  "encode_container paramsJSON encrypted =
     bytes_of VaultHeader @ le32 VaultVersion @ le32 (word_of_nat (length paramsJSON))
       @ paramsJSON @ encrypted"

text \<open>
  The checks of \<^verbatim>\<open>Load\<close> on the bytes of the file (lines 176 to 214), in the source's
  order: the minimum size, the header, the version, the length of the parameters. The
  result is the pair of \<^verbatim>\<open>paramsJSON\<close> and the rest of the data.
\<close>

definition minSize :: nat where
  "minSize = length VaultHeader + 4 + 4"

definition decode_container :: "bytes \<Rightarrow> error + (bytes \<times> bytes)" where
  "decode_container data0 =
     (if length data0 < minSize then Inl VaultTooSmall
      else if take (length VaultHeader) data0 \<noteq> bytes_of VaultHeader then Inl WrongHeader
      else
        let data1 = drop (length VaultHeader) data0 in
        case read_le32 (take 4 data1) of
          None \<Rightarrow> Inl ReadVersionFailed
        | Some version \<Rightarrow>
            let data2 = drop 4 data1 in
            if version \<noteq> VaultVersion then Inl (UnsupportedVersion version)
            else
              (case read_le32 (take 4 data2) of
                 None \<Rightarrow> Inl ReadParamsLengthFailed
               | Some paramsLen \<Rightarrow>
                   let data3 = drop 4 data2 in
                   if length data3 < unat paramsLen then Inl ParamsTooShort
                   else Inr (take (unat paramsLen) data3, drop (unat paramsLen) data3)))"

text \<open>
  \<^verbatim>\<open>Load\<close> after \<^verbatim>\<open>os.ReadFile\<close>: the container checks, then the parameters must
  unmarshal (their value is dropped), then the data is decrypted and the vault unmarshalled.
\<close>

definition Load_bytes :: "crypto_lib \<Rightarrow> 'v json_lib \<Rightarrow> bytes \<Rightarrow> bytes \<Rightarrow> error + 'v" where
  "Load_bytes L J data key =
     (case decode_container data of
        Inl e \<Rightarrow> Inl e
      | Inr (paramsJSON, rest) \<Rightarrow>
          (case UnmarshalParams J paramsJSON of
             Inl e \<Rightarrow> Inl e
           | Inr _ \<Rightarrow>
               (case Decrypt L rest key of
                  Inl e \<Rightarrow> Inl (DecryptVaultFailed e)
                | Inr decrypted \<Rightarrow>
                    (case json_Unmarshal_vault J decrypted of
                       None \<Rightarrow> Inl UnmarshalVaultFailed
                     | Some vault \<Rightarrow> Inr vault))))"

text \<open>
  The bytes \<^verbatim>\<open>LoadParams\<close> cuts out of the file (lines 246 to 270): the minimum size
  is checked; the header and the version are skipped, not compared; the length of the
  parameters is read and checked against the rest.
\<close>

definition peek_params :: "bytes \<Rightarrow> error + bytes" where
  "peek_params data0 =
     (if length data0 < minSize then Inl VaultTooSmall
      else
        let data1 = drop (length VaultHeader) data0;
            data2 = drop 4 data1
        in (case read_le32 (take 4 data2) of
              None \<Rightarrow> Inl ReadParamsLengthFailed
            | Some paramsLen \<Rightarrow>
                let data3 = drop 4 data2 in
                if length data3 < unat paramsLen then Inl ParamsTooShort
                else Inr (take (unat paramsLen) data3)))"

text \<open>\<^verbatim>\<open>LoadParams\<close> after \<^verbatim>\<open>os.ReadFile\<close>.\<close>

definition LoadParams_bytes :: "'v json_lib \<Rightarrow> bytes \<Rightarrow> error + KeyDerivationParams" where
  "LoadParams_bytes J data =
     (case peek_params data of
        Inl e \<Rightarrow> Inl e
      | Inr paramsJSON \<Rightarrow> UnmarshalParams J paramsJSON)"

section \<open>The file system and atomic persistence\<close>

text \<open>
  The file system is a map from paths to the bytes of the regular file there. Each call of
  the \<^verbatim>\<open>os\<close> package can fail; which calls fail in a run is the record \<open>faults\<close>.
  \<^verbatim>\<open>os.WriteFile\<close> opens the file with \<^verbatim>\<open>O_CREATE|O_TRUNC\<close> and writes: it can fail
  before the file is opened (nothing changes) or after some bytes were written (a prefix
  of the data is in the file). \<^verbatim>\<open>os.Rename\<close> replaces the target in one step or fails
  and changes nothing. Directories are not represented: of \<^verbatim>\<open>os.MkdirAll\<close> only the
  failure is.
\<close>

type_synonym filesystem = "path \<Rightarrow> bytes option"



definition os_ReadFile :: "filesystem \<Rightarrow> path \<Rightarrow> error + bytes" where
  "os_ReadFile fs p = (case fs p of None \<Rightarrow> Inl ReadFileFailed | Some d \<Rightarrow> Inr d)"







definition Load :: "crypto_lib \<Rightarrow> 'v json_lib \<Rightarrow> path \<Rightarrow> filesystem \<Rightarrow> bytes \<Rightarrow> error + 'v" where
  "Load L J p fs key =
     (case os_ReadFile fs p of Inl e \<Rightarrow> Inl e | Inr data \<Rightarrow> Load_bytes L J data key)"

definition LoadParams :: "'v json_lib \<Rightarrow> path \<Rightarrow> filesystem \<Rightarrow> error + KeyDerivationParams" where
  "LoadParams J p fs =
     (case os_ReadFile fs p of Inl e \<Rightarrow> Inl e | Inr data \<Rightarrow> LoadParams_bytes J data)"

section \<open>Unlocking\<close>

text \<open>
  \<^verbatim>\<open>VaultServiceImpl.UnlockVault\<close>: the result and the new value of \<^verbatim>\<open>s.masterKey\<close>.
\<close>

definition UnlockVault ::
  "crypto_lib \<Rightarrow> 'v json_lib \<Rightarrow> bytes \<Rightarrow> path \<Rightarrow> filesystem \<Rightarrow> bytes option \<Rightarrow> string
     \<Rightarrow> (error + 'v) \<times> bytes option" where
  "UnlockVault L J rnd p fs masterKey masterPassword =
     (case DefaultKeyDerivationParams rnd of
        Inl e \<Rightarrow> (Inl e, masterKey)
      | Inr params \<Rightarrow>
          let key = DeriveKey L masterPassword params
          in (case Load L J p fs key of
                Inl e \<Rightarrow> (Inl e, masterKey)
              | Inr vault \<Rightarrow> (Inr vault, Some key)))"

text \<open>
  \<^verbatim>\<open>App.unlockVault\<close> up to the assignments of \<^verbatim>\<open>a.masterKey\<close> and \<^verbatim>\<open>a.vault\<close>
  (the rest sets up the screen): the vault and the key, or the error of the message.
\<close>

definition App_unlockVault ::
  "crypto_lib \<Rightarrow> 'v json_lib \<Rightarrow> path \<Rightarrow> filesystem \<Rightarrow> string \<Rightarrow> error + ('v \<times> bytes)" where
  "App_unlockVault L J p fs password =
     (case LoadParams J p fs of
        Inl e \<Rightarrow> Inl (LoadParamsFailed e)
      | Inr params \<Rightarrow>
          let key = DeriveKey L password params
          in (case Load L J p fs key of
                Inl e \<Rightarrow> Inl (UnlockFailed e)
              | Inr vault \<Rightarrow> Inr (vault, key)))"

section \<open>SHA-1 and HMAC\<close>

text \<open>
  \<^verbatim>\<open>crypto/sha1\<close> and \<^verbatim>\<open>crypto/hmac\<close> are library code; the claims about codes need
  their values, so SHA-1 (FIPS 180-4) and HMAC (RFC 2104) are written out. A block is
  64 bytes; the message schedule is kept newest word first while it is extended.
\<close>

definition be32 :: "32 word \<Rightarrow> bytes" where
  "be32 w = [ucast (drop_bit 24 w), ucast (drop_bit 16 w), ucast (drop_bit 8 w), ucast w]"

definition be64 :: "64 word \<Rightarrow> bytes" where
  "be64 w = [ucast (drop_bit 56 w), ucast (drop_bit 48 w), ucast (drop_bit 40 w),
             ucast (drop_bit 32 w), ucast (drop_bit 24 w), ucast (drop_bit 16 w),
             ucast (drop_bit 8 w), ucast w]"

fun be32_words :: "bytes \<Rightarrow> 32 word list" where
  "be32_words (a # b # c # d # rest) =
     (push_bit 24 (ucast a) OR push_bit 16 (ucast b) OR push_bit 8 (ucast c) OR ucast d)
       # be32_words rest"
| "be32_words _ = []"

definition rotl32 :: "nat \<Rightarrow> 32 word \<Rightarrow> 32 word" where
  "rotl32 n w = push_bit n w OR drop_bit (32 - n) w"

definition sha1_pad :: "bytes \<Rightarrow> bytes" where
  "sha1_pad m =
     m @ [0x80] @ replicate ((119 - length m mod 64) mod 64) 0
       @ be64 (word_of_nat (8 * length m))"

fun sha1_schedule :: "nat \<Rightarrow> 32 word list \<Rightarrow> 32 word list" where
  "sha1_schedule 0 ws = ws"
| "sha1_schedule (Suc n) ws =
     sha1_schedule n (rotl32 1 (ws ! 2 XOR ws ! 7 XOR ws ! 13 XOR ws ! 15) # ws)"

definition sha1_Ch :: "32 word \<Rightarrow> 32 word \<Rightarrow> 32 word \<Rightarrow> 32 word" where
  "sha1_Ch b c d = (b AND c) OR (NOT b AND d)"

definition sha1_Parity :: "32 word \<Rightarrow> 32 word \<Rightarrow> 32 word \<Rightarrow> 32 word" where
  "sha1_Parity b c d = b XOR c XOR d"

definition sha1_Maj :: "32 word \<Rightarrow> 32 word \<Rightarrow> 32 word \<Rightarrow> 32 word" where
  "sha1_Maj b c d = (b AND c) OR (b AND d) OR (c AND d)"

type_synonym sha1_state = "32 word \<times> 32 word \<times> 32 word \<times> 32 word \<times> 32 word"

fun sha1_rounds ::
  "(32 word \<Rightarrow> 32 word \<Rightarrow> 32 word \<Rightarrow> 32 word) \<Rightarrow> 32 word \<Rightarrow> 32 word list \<Rightarrow> sha1_state
     \<Rightarrow> sha1_state" where
  "sha1_rounds f k [] s = s"
| "sha1_rounds f k (w # ws) (a, b, c, d, e) =
     sha1_rounds f k ws (rotl32 5 a + f b c d + e + k + w, a, rotl32 30 b, c, d)"

fun sha1_add :: "sha1_state \<Rightarrow> sha1_state \<Rightarrow> sha1_state" where
  "sha1_add (h0, h1, h2, h3, h4) (a, b, c, d, e) = (h0 + a, h1 + b, h2 + c, h3 + d, h4 + e)"

definition sha1_block :: "sha1_state \<Rightarrow> bytes \<Rightarrow> sha1_state" where
  "sha1_block h blk =
     (let w = rev (sha1_schedule 64 (rev (be32_words blk))) in
      sha1_add h
        (sha1_rounds sha1_Parity 0xCA62C1D6 (drop 60 w)
          (sha1_rounds sha1_Maj 0x8F1BBCDC (take 20 (drop 40 w))
            (sha1_rounds sha1_Parity 0x6ED9EBA1 (take 20 (drop 20 w))
              (sha1_rounds sha1_Ch 0x5A827999 (take 20 w) h)))))"

fun sha1_blocks :: "nat \<Rightarrow> sha1_state \<Rightarrow> bytes \<Rightarrow> sha1_state" where
  "sha1_blocks 0 h m = h"
| "sha1_blocks (Suc n) h m = sha1_blocks n (sha1_block h (take 64 m)) (drop 64 m)"

fun sha1_digest :: "sha1_state \<Rightarrow> bytes" where
  "sha1_digest (h0, h1, h2, h3, h4) = be32 h0 @ be32 h1 @ be32 h2 @ be32 h3 @ be32 h4"

definition sha1_init :: sha1_state where
  "sha1_init = (0x67452301, 0xEFCDAB89, 0x98BADCFE, 0x10325476, 0xC3D2E1F0)"

definition sha1 :: "bytes \<Rightarrow> bytes" where
  "sha1 m = sha1_digest (sha1_blocks (length (sha1_pad m) div 64) sha1_init (sha1_pad m))"

definition hmac_sha1 :: "bytes \<Rightarrow> bytes \<Rightarrow> bytes" where
  "hmac_sha1 key msg =
     (let k = (if 64 < length key then sha1 key else key);
          k0 = k @ replicate (64 - length k) 0
      in sha1 (map (\<lambda>b. b XOR 0x5c) k0 @ sha1 (map (\<lambda>b. b XOR 0x36) k0 @ msg)))"

section \<open>The TOTP engine\<close>

text \<open>
  A \<^verbatim>\<open>time.Duration\<close> is a 64-bit word read as a signed number of nanoseconds; Go's
  \<^verbatim>\<open>int\<close> is a 64-bit word read as signed. A \<^verbatim>\<open>time.Time\<close> is the number of
  nanoseconds since the Unix epoch, an unbounded integer: \<^verbatim>\<open>t.Unix()\<close> is its floor in
  seconds and \<^verbatim>\<open>t.Add(d)\<close> adds the duration.
\<close>

definition Second :: int where
  "Second = 1000000000"

record Config =
  Secret :: string
  Period :: "64 word"
  Digits :: "64 word"
  Algorithm :: string
  Issuer :: string
  Account :: string

datatype totp_error =
    InvalidSecret
  | UnsupportedAlgorithm string
  | InvalidURI
  | InvalidScheme string
  | InvalidType string
  | MissingSecret
  | InvalidPeriod
  | InvalidDigits

datatype panic = DivideByZero | IndexOutOfRange

datatype 'a outcome = Returns 'a | Fails totp_error | Panics panic

text \<open>
  What the model takes from Go's library and platform as parameters:
  \<^item> HMAC with SHA-256 and SHA-512, whose results have 32 and 64 bytes;
  \<^item> \<^verbatim>\<open>strings.ToUpper\<close> on a string that is not all ASCII;
  \<^item> base32 decoding without padding of a string that has a character outside the
    alphabet or a length that leaves 1, 3 or 6 modulo 8, where versions of the library
    differ;
  \<^item> the conversions \<^verbatim>\<open>uint64(d.Seconds())\<close> and \<^verbatim>\<open>int(d.Seconds())\<close> of a duration
    that is not a whole number of seconds, or is negative for \<^verbatim>\<open>uint64\<close>: the float is
    rounded, and a float outside the target type converts to a value the language leaves
    to the implementation;
  \<^item> the rest of \<^verbatim>\<open>generateHOTP\<close> for more than 9 digits, where
    \<^verbatim>\<open>uint32(math.Pow10(c.Digits))\<close> converts a float outside \<^verbatim>\<open>uint32\<close>;
  \<^item> \<^verbatim>\<open>url.Parse\<close> of a string that is not of the shape
    \<^verbatim>\<open>scheme://host/path?query\<close> with a plain host, and \<^verbatim>\<open>url.ParseQuery\<close> of a query
    with a semicolon, which versions of the library treat differently.
\<close>

record URL =
  Scheme :: string
  Host :: string
  Path :: string
  RawQuery :: string

record golib =
  hmac_SHA256 :: "bytes \<Rightarrow> bytes \<Rightarrow> 256 word"
  hmac_SHA512 :: "bytes \<Rightarrow> bytes \<Rightarrow> 512 word"
  unicode_ToUpper :: "string \<Rightarrow> string"
  base32_irregular :: "string \<Rightarrow> bytes option"
  Seconds_uint64_inexact :: "64 word \<Rightarrow> 64 word"
  Seconds_int_inexact :: "64 word \<Rightarrow> 64 word"
  wide_digits :: "64 word \<Rightarrow> 32 word \<Rightarrow> string outcome"
  url_Parse_irregular :: "string \<Rightarrow> URL option"
  ParseQuery_irregular :: "string \<Rightarrow> (string \<times> string) list"

subsection \<open>Strings\<close>

definition is_ascii :: "char \<Rightarrow> bool" where
  "is_ascii ch = ((of_char ch :: nat) < 128)"

definition ascii_upper :: "char \<Rightarrow> char" where
  "ascii_upper ch =
     (if 97 \<le> (of_char ch :: nat) \<and> (of_char ch :: nat) \<le> 122
      then char_of ((of_char ch :: nat) - 32) else ch)"

definition ToUpper :: "golib \<Rightarrow> string \<Rightarrow> string" where
  "ToUpper G s = (if list_all is_ascii s then map ascii_upper s else unicode_ToUpper G s)"

text \<open>The decode map of \<^verbatim>\<open>base32.StdEncoding\<close>: A to Z are 0 to 25, 2 to 7 are 26 to 31.\<close>

definition b32_value :: "char \<Rightarrow> byte option" where
  "b32_value ch =
     (let n = (of_char ch :: nat) in
      if 65 \<le> n \<and> n \<le> 90 then Some (of_nat (n - 65))
      else if 50 \<le> n \<and> n \<le> 55 then Some (of_nat (n - 24))
      else None)"

text \<open>
  The packing of the decoder: 8 values of 5 bits make 5 bytes; a last group of 7, 5, 4
  or 2 values makes 4, 3, 2 or 1 bytes.
\<close>

fun b32_pack :: "byte list \<Rightarrow> bytes" where
  "b32_pack (d0 # d1 # d2 # d3 # d4 # d5 # d6 # d7 # rest) =
     [push_bit 3 d0 OR drop_bit 2 d1,
      push_bit 6 d1 OR push_bit 1 d2 OR drop_bit 4 d3,
      push_bit 4 d3 OR drop_bit 1 d4,
      push_bit 7 d4 OR push_bit 2 d5 OR drop_bit 3 d6,
      push_bit 5 d6 OR d7] @ b32_pack rest"
| "b32_pack [d0, d1, d2, d3, d4, d5, d6] =
     [push_bit 3 d0 OR drop_bit 2 d1,
      push_bit 6 d1 OR push_bit 1 d2 OR drop_bit 4 d3,
      push_bit 4 d3 OR drop_bit 1 d4,
      push_bit 7 d4 OR push_bit 2 d5 OR drop_bit 3 d6]"
| "b32_pack [d0, d1, d2, d3, d4] =
     [push_bit 3 d0 OR drop_bit 2 d1,
      push_bit 6 d1 OR push_bit 1 d2 OR drop_bit 4 d3,
      push_bit 4 d3 OR drop_bit 1 d4]"
| "b32_pack [d0, d1, d2, d3] =
     [push_bit 3 d0 OR drop_bit 2 d1,
      push_bit 6 d1 OR push_bit 1 d2 OR drop_bit 4 d3]"
| "b32_pack [d0, d1] = [push_bit 3 d0 OR drop_bit 2 d1]"
| "b32_pack _ = []"

definition b32_regular :: "string \<Rightarrow> bool" where
  "b32_regular s =
     (list_all (\<lambda>ch. b32_value ch \<noteq> None) s \<and> length s mod 8 \<in> {0, 2, 4, 5, 7})"

text \<open>
  \<^verbatim>\<open>base32.StdEncoding.WithPadding(base32.NoPadding).DecodeString\<close>.
\<close>

definition base32_DecodeString :: "golib \<Rightarrow> string \<Rightarrow> bytes option" where
  "base32_DecodeString G s =
     (if b32_regular s then Some (b32_pack (List.map_filter b32_value s))
      else base32_irregular G s)"

subsection \<open>Numbers\<close>

text \<open>
  \<^verbatim>\<open>uint64(d.Seconds())\<close> and \<^verbatim>\<open>int(d.Seconds())\<close>. \<^verbatim>\<open>Seconds\<close> is
  \<^verbatim>\<open>float64(d / Second) + float64(d % Second) / 1e9\<close>: for a whole number of seconds the
  float is that integer exactly.
\<close>

definition Seconds_uint64 :: "golib \<Rightarrow> 64 word \<Rightarrow> 64 word" where
  "Seconds_uint64 G d =
     (if 0 \<le> sint d \<and> sint d mod Second = 0 then word_of_int (sint d div Second)
      else Seconds_uint64_inexact G d)"

definition Seconds_int :: "golib \<Rightarrow> 64 word \<Rightarrow> 64 word" where
  "Seconds_int G d =
     (if sint d mod Second = 0 then word_of_int (sint d div Second)
      else Seconds_int_inexact G d)"

text \<open>The decimal digits of a natural number, as \<^verbatim>\<open>%d\<close> and \<^verbatim>\<open>strconv.Itoa\<close> print them.\<close>

fun decimal :: "nat \<Rightarrow> string" where
  "decimal n = (if n < 10 then [char_of (48 + n)] else decimal (n div 10) @ [char_of (48 + n mod 10)])"

declare decimal.simps [simp del]

text \<open>\<^verbatim>\<open>fmt.Sprintf("%0Nd", v)\<close>: the decimal digits, padded with zeros on the left to N.\<close>

definition pad_zeros :: "nat \<Rightarrow> string \<Rightarrow> string" where
  "pad_zeros n s = replicate (n - length s) CHR ''0'' @ s"

subsection \<open>Codes\<close>

text \<open>
  The switch of \<^verbatim>\<open>generateHOTP\<close> on the algorithm, with \<^verbatim>\<open>hmac.New\<close>, \<^verbatim>\<open>Write\<close> and
  \<^verbatim>\<open>Sum\<close> as one function of the key and the message.
\<close>

fun word_bytes :: "nat \<Rightarrow> 'a::len word \<Rightarrow> bytes" where
  "word_bytes 0 w = []"
| "word_bytes (Suc n) w = word_bytes n (drop_bit 8 w) @ [ucast w]"

definition hmac_New :: "golib \<Rightarrow> string \<Rightarrow> (bytes \<Rightarrow> bytes \<Rightarrow> bytes) option" where
  "hmac_New G alg =
     (if alg = ''SHA1'' then Some hmac_sha1
      else if alg = ''SHA256'' then Some (\<lambda>key msg. word_bytes 32 (hmac_SHA256 G key msg))
      else if alg = ''SHA512'' then Some (\<lambda>key msg. word_bytes 64 (hmac_SHA512 G key msg))
      else None)"

text \<open>\<^verbatim>\<open>binary.BigEndian.Uint32\<close> of a slice of four bytes.\<close>

definition be32_read :: "bytes \<Rightarrow> 32 word" where
  "be32_read b =
     (case b of
        b0 # b1 # b2 # b3 # _ \<Rightarrow>
          push_bit 24 (ucast b0) OR push_bit 16 (ucast b1) OR push_bit 8 (ucast b2) OR ucast b3
      | _ \<Rightarrow> 0)"

text \<open>
  Lines 100 to 105: the modulus \<^verbatim>\<open>uint32(math.Pow10(c.Digits))\<close> is 0 for a negative
  number of digits (the power is below 1), so that the remainder panics; it is the power
  of ten up to 9 digits.
\<close>

definition format_code :: "golib \<Rightarrow> 64 word \<Rightarrow> 32 word \<Rightarrow> string outcome" where
  "format_code G digits code =
     (if sint digits < 0 then Panics DivideByZero
      else if sint digits \<le> 9
      then Returns (pad_zeros (nat (sint digits))
                      (decimal (unat code mod 10 ^ nat (sint digits))))
      else wide_digits G digits code)"

definition generateHOTP :: "golib \<Rightarrow> Config \<Rightarrow> bytes \<Rightarrow> 64 word \<Rightarrow> string outcome" where
  "generateHOTP G c secret counter =
     (case hmac_New G (Algorithm c) of
        None \<Rightarrow> Fails (UnsupportedAlgorithm (Algorithm c))
      | Some h \<Rightarrow>
          let hmacResult = h secret (be64 counter) in
          if hmacResult = [] then Panics IndexOutOfRange
          else
            let offset = unat (last hmacResult AND 0xf) in
            if length hmacResult < offset + 4 then Panics IndexOutOfRange
            else format_code G (Digits c)
                   (be32_read (take 4 (drop offset hmacResult)) AND 0x7fffffff))"

definition Unix :: "int \<Rightarrow> int" where
  "Unix t = t div Second"

definition GenerateCodeAt :: "golib \<Rightarrow> Config \<Rightarrow> int \<Rightarrow> (string \<times> 64 word) outcome" where
  "GenerateCodeAt G c t =
     (case base32_DecodeString G (ToUpper G (Secret c)) of
        None \<Rightarrow> Fails InvalidSecret
      | Some secret \<Rightarrow>
          if Seconds_uint64 G (Period c) = 0 then Panics DivideByZero
          else
            let counter = (word_of_int (Unix t) :: 64 word) div Seconds_uint64 G (Period c) in
            (case generateHOTP G c secret counter of
               Panics p \<Rightarrow> Panics p
             | Fails e \<Rightarrow> Fails e
             | Returns code \<Rightarrow>
                 Returns (code,
                   ((counter + 1) * Seconds_uint64 G (Period c) - word_of_int (Unix t))
                     * 1000000000)))"

text \<open>
  \<^verbatim>\<open>ValidateAt\<close>: three calls of \<^verbatim>\<open>GenerateCodeAt\<close>, at \<open>t\<close>, at \<^verbatim>\<open>t.Add(-c.Period)\<close>
  and at \<^verbatim>\<open>t.Add(c.Period)\<close>, each compared when it returned without error; a panic of
  a call is the panic of \<^verbatim>\<open>ValidateAt\<close>.
\<close>

definition code_matches :: "(string \<times> 64 word) outcome \<Rightarrow> string \<Rightarrow> bool" where
  "code_matches r code = (case r of Returns (c, _) \<Rightarrow> c = code | _ \<Rightarrow> False)"

definition ValidateAt :: "golib \<Rightarrow> Config \<Rightarrow> string \<Rightarrow> int \<Rightarrow> bool outcome" where
  "ValidateAt G c code t =
     (case GenerateCodeAt G c t of
        Panics p \<Rightarrow> Panics p
      | current \<Rightarrow>
          if code_matches current code then Returns True
          else
            (case GenerateCodeAt G c (t + sint (- Period c)) of
               Panics p \<Rightarrow> Panics p
             | prev \<Rightarrow>
                 if code_matches prev code then Returns True
                 else
                   (case GenerateCodeAt G c (t + sint (Period c)) of
                      Panics p \<Rightarrow> Panics p
                    | next \<Rightarrow> Returns (code_matches next code))))"

subsection \<open>URLs\<close>

text \<open>
  \<^verbatim>\<open>net/url\<close>: the characters the escaping functions leave alone, after
  \<^verbatim>\<open>shouldEscape\<close>. In a query component these are the letters, the digits and
  \<^verbatim>\<open>-_.~\<close>; in a path segment \<^verbatim>\<open>$&+=:@\<close> as well.
\<close>

definition is_alnum :: "char \<Rightarrow> bool" where
  "is_alnum ch =
     (let n = (of_char ch :: nat) in
      (48 \<le> n \<and> n \<le> 57) \<or> (65 \<le> n \<and> n \<le> 90) \<or> (97 \<le> n \<and> n \<le> 122))"

definition is_alpha :: "char \<Rightarrow> bool" where
  "is_alpha ch =
     (let n = (of_char ch :: nat) in (65 \<le> n \<and> n \<le> 90) \<or> (97 \<le> n \<and> n \<le> 122))"

definition shouldEscape :: "bool \<Rightarrow> char \<Rightarrow> bool" where
  "shouldEscape query ch =
     (if is_alnum ch \<or> ch \<in> set ''-_.~'' then False
      else if ch \<in> set ''$&+=:@'' then query
      else True)"

definition upperhex :: "nat \<Rightarrow> char" where
  "upperhex n = ''0123456789ABCDEF'' ! n"

definition ishex :: "char \<Rightarrow> bool" where
  "ishex ch = (ch \<in> set ''0123456789abcdefABCDEF'')"

definition unhex :: "char \<Rightarrow> nat" where
  "unhex ch =
     (let n = (of_char ch :: nat) in
      if 48 \<le> n \<and> n \<le> 57 then n - 48
      else if 97 \<le> n \<and> n \<le> 102 then n - 87
      else if 65 \<le> n \<and> n \<le> 70 then n - 55
      else 0)"

text \<open>
  \<^verbatim>\<open>escape\<close> in the modes of \<^verbatim>\<open>QueryEscape\<close> (\<open>query\<close> true: a space becomes a plus)
  and of \<^verbatim>\<open>PathEscape\<close>.
\<close>

definition escape_char :: "bool \<Rightarrow> char \<Rightarrow> string" where
  "escape_char query ch =
     (if shouldEscape query ch then
        (if ch = CHR '' '' \<and> query then ''+''
         else [CHR ''%'', upperhex ((of_char ch :: nat) div 16), upperhex ((of_char ch :: nat) mod 16)])
      else [ch])"

definition escape :: "bool \<Rightarrow> string \<Rightarrow> string" where
  "escape query s = concat (map (escape_char query) s)"

definition QueryEscape :: "string \<Rightarrow> string" where
  "QueryEscape s = escape True s"

definition PathEscape :: "string \<Rightarrow> string" where
  "PathEscape s = escape False s"

text \<open>
  \<^verbatim>\<open>unescape\<close> in the modes of a query component and of a path: a percent sign needs
  two hexadecimal digits after it, or the whole string is refused.
\<close>

fun unescape :: "bool \<Rightarrow> string \<Rightarrow> string option" where
  "unescape query [] = Some []"
| "unescape query (ch # s) =
     (if ch = CHR ''%'' then
        (case s of
           h1 # h2 # r \<Rightarrow>
             if ishex h1 \<and> ishex h2
             then map_option ((#) (char_of (16 * unhex h1 + unhex h2))) (unescape query r)
             else None
         | _ \<Rightarrow> None)
      else if ch = CHR ''+'' \<and> query then map_option ((#) CHR '' '') (unescape query s)
      else map_option ((#) ch) (unescape query s))"

text \<open>
  \<^verbatim>\<open>url.Parse\<close> on a string with no fragment and no control byte, with a scheme of
  letters, digits and \<^verbatim>\<open>+-.\<close> that starts with a letter, then \<^verbatim>\<open>://\<close>, a host of letters,
  digits and \<^verbatim>\<open>-._~\<close> (no user, no port), a path and possibly a query: the scheme is
  lowered, the path unescaped, the query kept raw.
\<close>

definition ascii_lower :: "char \<Rightarrow> char" where
  "ascii_lower ch =
     (if 65 \<le> (of_char ch :: nat) \<and> (of_char ch :: nat) \<le> 90
      then char_of ((of_char ch :: nat) + 32) else ch)"

definition is_CTL :: "char \<Rightarrow> bool" where
  "is_CTL ch = ((of_char ch :: nat) < 32 \<or> (of_char ch :: nat) = 127)"

definition url_Parse :: "golib \<Rightarrow> string \<Rightarrow> URL option" where
  "url_Parse G s =
     (let scheme = takeWhile (\<lambda>ch. ch \<noteq> CHR '':'') s;
          rest = drop (length scheme + 1) s;
          hier = takeWhile (\<lambda>ch. ch \<noteq> CHR ''?'') rest;
          rawquery = drop 1 (dropWhile (\<lambda>ch. ch \<noteq> CHR ''?'') rest);
          authority = takeWhile (\<lambda>ch. ch \<noteq> CHR ''/'') (drop 2 hier);
          rawpath = dropWhile (\<lambda>ch. ch \<noteq> CHR ''/'') (drop 2 hier)
      in if CHR ''#'' \<notin> set s \<and> list_all (\<lambda>ch. \<not> is_CTL ch) s
            \<and> length scheme < length s \<and> list_all is_alpha (take 1 scheme) \<and> scheme \<noteq> []
            \<and> list_all (\<lambda>ch. is_alnum ch \<or> ch \<in> set ''+-.'') scheme
            \<and> take 2 hier = ''//''
            \<and> list_all (\<lambda>ch. is_alnum ch \<or> ch \<in> set ''-._~'') authority
         then (case unescape False rawpath of
                 None \<Rightarrow> None
               | Some p \<Rightarrow>
                   Some \<lparr>Scheme = map ascii_lower scheme, Host = authority, Path = p,
                         RawQuery = rawquery\<rparr>)
         else url_Parse_irregular G s)"

text \<open>\<^verbatim>\<open>strings.Split(s, sep)\<close> for a separator of one character.\<close>

fun split_on :: "char \<Rightarrow> string \<Rightarrow> string list" where
  "split_on sep [] = [[]]"
| "split_on sep (ch # s) =
     (if ch = sep then [] # split_on sep s
      else (case split_on sep s of w # ws \<Rightarrow> (ch # w) # ws | [] \<Rightarrow> [[ch]]))"

text \<open>
  \<^verbatim>\<open>u.Query()\<close>, that is \<^verbatim>\<open>url.ParseQuery\<close> with its error dropped: the pairs of the
  segments between ampersands, in order; an empty segment and a segment whose key or
  value does not unescape are skipped. \<open>Values_Get\<close> is the first value of a key, or the
  empty string.
\<close>

definition query_pair :: "string \<Rightarrow> (string \<times> string) option" where
  "query_pair seg =
     (if seg = [] then None
      else (case (unescape True (takeWhile (\<lambda>ch. ch \<noteq> CHR ''='') seg),
                  unescape True (drop 1 (dropWhile (\<lambda>ch. ch \<noteq> CHR ''='') seg))) of
              (Some k, Some v) \<Rightarrow> Some (k, v)
            | _ \<Rightarrow> None))"

definition ParseQuery :: "golib \<Rightarrow> string \<Rightarrow> (string \<times> string) list" where
  "ParseQuery G q =
     (if CHR '';'' \<in> set q then ParseQuery_irregular G q
      else List.map_filter query_pair (split_on CHR ''&'' q))"

definition Values_Get :: "(string \<times> string) list \<Rightarrow> string \<Rightarrow> string" where
  "Values_Get vs k = (case map_of vs k of None \<Rightarrow> [] | Some v \<Rightarrow> v)"

text \<open>
  \<^verbatim>\<open>Values.Encode\<close> of pairs that are already in the order of their keys.
\<close>

fun Values_Encode :: "(string \<times> string) list \<Rightarrow> string" where
  "Values_Encode [] = []"
| "Values_Encode [(k, v)] = QueryEscape k @ ''='' @ QueryEscape v"
| "Values_Encode ((k, v) # kvs) = QueryEscape k @ ''='' @ QueryEscape v @ ''&'' @ Values_Encode kvs"

subsection \<open>Integers as text\<close>

text \<open>
  \<^verbatim>\<open>strconv.Itoa\<close> and \<^verbatim>\<open>strconv.Atoi\<close> of a 64-bit \<^verbatim>\<open>int\<close>: an optional sign, then
  decimal digits only; a value outside the 64 bits is an error.
\<close>

definition Itoa :: "64 word \<Rightarrow> string" where
  "Itoa i = (if sint i < 0 then CHR ''-'' # decimal (nat (- sint i)) else decimal (nat (sint i)))"

definition is_digit :: "char \<Rightarrow> bool" where
  "is_digit ch = (48 \<le> (of_char ch :: nat) \<and> (of_char ch :: nat) \<le> 57)"

definition digits_value :: "string \<Rightarrow> nat" where
  "digits_value ds = foldl (\<lambda>acc ch. 10 * acc + ((of_char ch :: nat) - 48)) 0 ds"

definition Atoi :: "string \<Rightarrow> 64 word option" where
  "Atoi s =
     (let neg = (take 1 s = ''-'');
          ds = (if take 1 s = ''-'' \<or> take 1 s = ''+'' then drop 1 s else s);
          v = (if neg then - int (digits_value ds) else int (digits_value ds))
      in if ds = [] \<or> \<not> list_all is_digit ds then None
         else if v < - (2 ^ 63) \<or> 2 ^ 63 \<le> v then None
         else Some (word_of_int v))"

subsection \<open>The otpauth URI\<close>

definition DefaultConfig :: "string \<Rightarrow> Config" where
  "DefaultConfig secret =
     \<lparr>Secret = secret, Period = 30 * 1000000000, Digits = 6, Algorithm = ''SHA1'',
      Issuer = [], Account = []\<rparr>"

text \<open>
  The label of \<^verbatim>\<open>ParseURI\<close>: \<^verbatim>\<open>strings.SplitN(label, ":", 2)\<close> has two parts when the
  label has a colon, the text before the first colon and the text after it.
\<close>

definition apply_label :: "string \<Rightarrow> Config \<Rightarrow> Config" where
  "apply_label label config =
     (if label = [] then config
      else if CHR '':'' \<in> set label then
        (let issuer = takeWhile (\<lambda>ch. ch \<noteq> CHR '':'') label;
             account = drop 1 (dropWhile (\<lambda>ch. ch \<noteq> CHR '':'') label)
         in (if Issuer config = [] then config\<lparr>Issuer := issuer\<rparr> else config)
              \<lparr>Account := account\<rparr>)
      else config\<lparr>Account := label\<rparr>)"

definition TrimPrefix_slash :: "string \<Rightarrow> string" where
  "TrimPrefix_slash s = (if take 1 s = ''/'' then drop 1 s else s)"

text \<open>
  The optional parameters \<^verbatim>\<open>period\<close> and \<^verbatim>\<open>digits\<close> of \<^verbatim>\<open>ParseURI\<close>: an empty
  value leaves the configuration as it is, a value that \<^verbatim>\<open>Atoi\<close> refuses is an error.
  The period is \<^verbatim>\<open>time.Duration(p) * time.Second\<close>, a product of 64-bit integers.
\<close>

definition parse_period :: "string \<Rightarrow> Config \<Rightarrow> Config option" where
  "parse_period period config =
     (if period = [] then Some config
      else map_option (\<lambda>p. config\<lparr>Period := p * 1000000000\<rparr>) (Atoi period))"

definition parse_digits :: "string \<Rightarrow> Config \<Rightarrow> Config option" where
  "parse_digits digits config =
     (if digits = [] then Some config
      else map_option (\<lambda>d. config\<lparr>Digits := d\<rparr>) (Atoi digits))"

definition ParseURI :: "golib \<Rightarrow> string \<Rightarrow> Config outcome" where
  "ParseURI G uri =
     (case url_Parse G uri of
        None \<Rightarrow> Fails InvalidURI
      | Some u \<Rightarrow>
          if Scheme u \<noteq> ''otpauth'' then Fails (InvalidScheme (Scheme u))
          else if Host u \<noteq> ''totp'' then Fails (InvalidType (Host u))
          else
            let query = ParseQuery G (RawQuery u);
                secret = Values_Get query ''secret''
            in if secret = [] then Fails MissingSecret
               else
                 let config0 = DefaultConfig secret;
                     issuer = Values_Get query ''issuer'';
                     config1 = (if issuer \<noteq> [] then config0\<lparr>Issuer := issuer\<rparr> else config0)
                 in (case parse_period (Values_Get query ''period'') config1 of
                       None \<Rightarrow> Fails InvalidPeriod
                     | Some config2 \<Rightarrow>
                         (case parse_digits (Values_Get query ''digits'') config2 of
                            None \<Rightarrow> Fails InvalidDigits
                          | Some config3 \<Rightarrow>
                              let algorithm = Values_Get query ''algorithm'';
                                  config4 = (if algorithm \<noteq> []
                                             then config3\<lparr>Algorithm := ToUpper G algorithm\<rparr>
                                             else config3)
                              in Returns (apply_label (TrimPrefix_slash (Path u)) config4))))"

text \<open>
  \<^verbatim>\<open>ToURI\<close>. The keys the source sets are written here in the order in which
  \<^verbatim>\<open>Values.Encode\<close> sorts them: algorithm, digits, issuer, period, secret.
\<close>

definition ToURI_values :: "golib \<Rightarrow> Config \<Rightarrow> (string \<times> string) list" where
  "ToURI_values G c =
     (if Algorithm c \<noteq> ''SHA1'' then [(''algorithm'', Algorithm c)] else [])
     @ (if Digits c \<noteq> 6 then [(''digits'', Itoa (Digits c))] else [])
     @ (if Issuer c \<noteq> [] then [(''issuer'', Issuer c)] else [])
     @ (if Period c \<noteq> 30 * 1000000000 then [(''period'', Itoa (Seconds_int G (Period c)))] else [])
     @ [(''secret'', Secret c)]"

definition ToURI_label :: "Config \<Rightarrow> string" where
  "ToURI_label c =
     (if Issuer c \<noteq> [] \<and> Account c \<noteq> [] then Issuer c @ '':'' @ Account c
      else if Issuer c \<noteq> [] then Issuer c
      else Account c)"

definition ToURI :: "golib \<Rightarrow> Config \<Rightarrow> string" where
  "ToURI G c =
     ''otpauth://totp/'' @ PathEscape (ToURI_label c) @ ''?'' @ Values_Encode (ToURI_values G c)"

section \<open>An instance of the libraries\<close>

text \<open>
  A small instance of the library parameters, used only where a theorem is applied to
  concrete values: a cipher that masks each byte with the first byte of the key and
  appends the first four bytes of the key as the tag, a key derivation that returns the
  first bytes of the salt followed by the password, and a serialisation that writes the
  parameters as their salt and a vault as its own bytes.
\<close>

definition demo_crypto :: crypto_lib where
  "demo_crypto =
     \<lparr>gcm_Seal = (\<lambda>key nonce p. map (\<lambda>b. b XOR hd key) p @ take 4 key),
      gcm_Open = (\<lambda>key nonce c.
         if 4 \<le> length c \<and> drop (length c - 4) c = take 4 key
         then Some (map (\<lambda>b. b XOR hd key) (take (length c - 4) c)) else None),
      argon2_IDKey = (\<lambda>pw salt t m par n. take (unat n) (salt @ pw @ replicate (unat n) 0))\<rparr>"

definition demo_json :: "bytes json_lib" where
  "demo_json =
     \<lparr>json_Marshal_vault = Some,
      json_Unmarshal_vault = Some,
      json_Marshal_params = (\<lambda>ps. Some (Salt ps)),
      json_Unmarshal_params = (\<lambda>b.
         Some \<lparr>KdfAlgorithm = ''argon2id'', Iterations = 3, Memory = 64 * 1024,
               Parallelism = 4, Salt = b, KeyLength = 32\<rparr>)\<rparr>"

definition demo_golib :: golib where
  "demo_golib =
     \<lparr>hmac_SHA256 = (\<lambda>key msg. 0),
      hmac_SHA512 = (\<lambda>key msg. 0),
      unicode_ToUpper = (\<lambda>s. s),
      base32_irregular = (\<lambda>s. None),
      Seconds_uint64_inexact = (\<lambda>d. 0),
      Seconds_int_inexact = (\<lambda>d. 0),
      wide_digits = (\<lambda>d code. Panics DivideByZero),
      url_Parse_irregular = (\<lambda>s. None),
      ParseQuery_irregular = (\<lambda>q. [])\<rparr>"

text \<open>
  The configuration of the RFC 6238 test vector: the secret is the base32 text of the key
  \<^verbatim>\<open>12345678901234567890\<close>.
\<close>

definition rfc_config :: Config where
  "rfc_config =
     \<lparr>Secret = ''GEZDGNBVGY3TQOJQGEZDGNBVGY3TQOJQ'', Period = 30 * 1000000000, Digits = 6,
      Algorithm = ''SHA1'', Issuer = [], Account = []\<rparr>"

definition rfc_key :: bytes where
  "rfc_key = [0x31, 0x32, 0x33, 0x34, 0x35, 0x36, 0x37, 0x38, 0x39, 0x30,
              0x31, 0x32, 0x33, 0x34, 0x35, 0x36, 0x37, 0x38, 0x39, 0x30]"

text \<open>
  \<open>norm32\<close> is the identity on 32-bit words; in the evaluation of SHA-1 it marks where
  a numeral is brought back below \<open>2 ^ 32\<close>.
\<close>

definition norm32 :: "32 word \<Rightarrow> 32 word" where
  "norm32 w = word_of_nat (unat w)"

section \<open>Properties of the container codec\<close>

lemma read_le32_le32: "read_le32 (le32 w) = Some w"
  unfolding read_le32_def le32_def
  apply simp
  apply (rule bit_word_eqI)
  apply (auto simp add: bit_simps)
  subgoal for n by (cases "n < 24") (simp_all add: not_less)
  done

lemma length_le32: "length (le32 w) = 4"
  by (simp add: le32_def)

lemma length_bytes_of: "length (bytes_of s) = length s"
  by (simp add: bytes_of_def)

lemma length_VaultHeader: "length VaultHeader = 8"
  by (simp add: VaultHeader_def)

lemma minSize_eq: "minSize = 16"
  by (simp add: minSize_def length_VaultHeader)

text \<open>
  What decoding returns on an encoded container, whatever the length of the parameters:
  the split is at the length field's value, the length modulo \<open>2 ^ 32\<close>.
\<close>

lemma decode_encode_container:
  "decode_container (encode_container p c) =
     (let n = unat (word_of_nat (length p) :: 32 word) in
      if length p + length c < n then Inl ParamsTooShort
      else Inr (take n (p @ c), drop n (p @ c)))"
  unfolding decode_container_def encode_container_def
  by (simp add: minSize_eq length_VaultHeader length_le32 length_bytes_of read_le32_le32 Let_def)

lemma unat_length_word32:
  "length (p :: bytes) < 2 ^ 32 \<Longrightarrow> unat (word_of_nat (length p) :: 32 word) = length p"
  by (simp add: unat_of_nat take_bit_nat_eq_self)

lemma decode_encode_small:
  "length p < 2 ^ 32 \<Longrightarrow> decode_container (encode_container p c) = Inr (p, c)"
  by (simp add: decode_encode_container unat_length_word32)

lemma peek_encode_small:
  "length p < 2 ^ 32 \<Longrightarrow> peek_params (encode_container p c) = Inr p"
  unfolding peek_params_def encode_container_def
  by (simp add: minSize_eq length_VaultHeader length_le32 length_bytes_of read_le32_le32
      Let_def unat_length_word32)

text \<open>
  C3 (as amended). For every parameter blob shorter than \<open>2 ^ 32\<close> bytes and every
  ciphertext blob, encoding them into the container (header of 8 bytes, version and
  parameter length as 4 little-endian bytes each, parameters, ciphertext) and decoding
  the result gives back exactly the parameter blob and the ciphertext blob.
\<close>

theorem container_roundtrip:
  assumes "length paramsJSON < 2 ^ 32"
  shows "decode_container (encode_container paramsJSON encrypted) = Inr (paramsJSON, encrypted)"
  using assms by (simp add: decode_encode_container unat_length_word32)

theorem container_roundtrip_witness:
  "length [1, 2, 3 :: byte] < 2 ^ 32 \<and>
   decode_container (encode_container [1, 2, 3] [9, 8]) = Inr ([1, 2, 3], [9, 8])"
  using container_roundtrip [of "[1, 2, 3]" "[9, 8]"] by simp

text \<open>
  C3 as stated fails for a parameter blob of \<open>2 ^ 32\<close> bytes: the length field is
  \<^verbatim>\<open>uint32(len(paramsJSON))\<close>, here 0, so decoding returns an empty parameter blob and
  takes the parameters for ciphertext.
\<close>

theorem container_roundtrip_counterexample:
  "decode_container (encode_container (replicate 4294967296 0) [7]) =
     Inr ([], replicate 4294967296 0 @ [7]) \<and>
   decode_container (encode_container (replicate 4294967296 0) [7]) \<noteq>
     Inr (replicate 4294967296 0, [7])"
proof -
  have "unat (word_of_nat (length (replicate 4294967296 (0::byte))) :: 32 word) = 0"
    by simp
  then have "decode_container (encode_container (replicate 4294967296 0) [7]) =
     Inr ([], replicate 4294967296 0 @ [7])"
    by (simp only: decode_encode_container Let_def) simp
  then show ?thesis by simp
qed

text \<open>
  C5. For every file whose version field (the 4 little-endian bytes after the 8-byte
  header) is a value other than \<open>VaultVersion\<close>, that is 1, \<open>Load\<close> fails, whatever the
  rest of the file and the key: with the error of the size check when the file has fewer
  than 16 bytes, of the header check when the header is wrong, and with
  \<open>UnsupportedVersion\<close> otherwise.
\<close>

theorem Load_version_gate:
  assumes "fs p = Some data" and "read_le32 (drop 8 data) = Some v" and "v \<noteq> VaultVersion"
  shows "Load L J p fs key =
           Inl (if length data < 16 then VaultTooSmall
                else if take 8 data \<noteq> bytes_of VaultHeader then WrongHeader
                else UnsupportedVersion v)"
proof -
  have "read_le32 (take 4 (drop 8 data)) = Some v"
    using assms(2) by (auto simp: read_le32_def split: list.splits)
  then show ?thesis
    using assms(1,3)
    by (simp add: Load_def os_ReadFile_def Load_bytes_def decode_container_def minSize_eq
        length_VaultHeader Let_def)
qed

text \<open>
  The witness is a container written as \<open>encode_container\<close> writes it, with the
  version field set to 2.
\<close>

theorem Load_version_gate_witness:
  "(Map.empty(''vault.enc'' \<mapsto> bytes_of VaultHeader @ le32 2 @ le32 1 @ [5] @ [6, 7]))
      ''vault.enc'' = Some (bytes_of VaultHeader @ le32 2 @ le32 1 @ [5] @ [6, 7]) \<and>
   read_le32 (drop 8 (bytes_of VaultHeader @ le32 2 @ le32 1 @ [5] @ [6, 7])) = Some 2 \<and>
   (2 :: 32 word) \<noteq> VaultVersion \<and>
   Load demo_crypto demo_json ''vault.enc''
     (Map.empty(''vault.enc'' \<mapsto> bytes_of VaultHeader @ le32 2 @ le32 1 @ [5] @ [6, 7]))
     (replicate 32 0) = Inl (UnsupportedVersion 2)"
proof -
  let ?data = "bytes_of VaultHeader @ le32 2 @ le32 1 @ [5] @ [6, 7 :: byte]"
  let ?fs = "Map.empty(''vault.enc'' \<mapsto> ?data)"
  have a: "?fs ''vault.enc'' = Some ?data" by simp
  have b: "read_le32 (drop 8 ?data) = Some 2"
    using read_le32_le32 [of 2]
    by (simp add: length_bytes_of length_VaultHeader read_le32_def le32_def)
  have c: "(2 :: 32 word) \<noteq> VaultVersion" by (simp add: VaultVersion_def)
  have "Load demo_crypto demo_json ''vault.enc'' ?fs (replicate 32 0) = Inl (UnsupportedVersion 2)"
    using Load_version_gate [of ?fs "''vault.enc''" ?data 2 demo_crypto demo_json "replicate 32 0",
        OF a b c]
    by (simp add: length_bytes_of length_VaultHeader length_le32)
  with a b c show ?thesis by blast
qed

text \<open>
  C6. \<open>LoadParams\<close> does not compare the header and the version: on a file whose header
  is not \<open>VaultHeader\<close> and whose version is 2 it returns the parameter bytes, where
  \<open>Load\<close>'s checks reject the same file for its header.
\<close>

theorem LoadParams_skips_checks:
  "peek_params (bytes_of ''NOTVAULT'' @ le32 2 @ le32 2 @ [123, 125]) = Inr [123, 125] \<and>
   decode_container (bytes_of ''NOTVAULT'' @ le32 2 @ le32 2 @ [123, 125]) = Inl WrongHeader"
  by (simp add: peek_params_def decode_container_def minSize_def VaultHeader_def bytes_of_def
      le32_def read_le32_def)

section \<open>Properties of the cipher module\<close>

text \<open>
  C2. For every plaintext \<open>p\<close> and every key of 32 bytes, \<open>Encrypt\<close> fails only when
  the random source delivers fewer than the 12 bytes of the nonce, and otherwise
  \<open>Decrypt\<close> of its result under the same key succeeds and returns exactly \<open>p\<close>. The
  hypothesis on the library is that of an authenticated cipher: \<^verbatim>\<open>gcm.Open\<close> returns the
  plaintext of what \<^verbatim>\<open>gcm.Seal\<close> produced under the same key and nonce.
\<close>

theorem Decrypt_Encrypt:
  assumes key: "length key = 32"
    and lib: "\<forall>nonce. length nonce = gcm_NonceSize \<longrightarrow>
               gcm_Open L key nonce (gcm_Seal L key nonce p) = Some p"
  shows "case Encrypt L rnd p key of
           Inl e \<Rightarrow> e = NonceGenerationFailed \<and> length rnd < gcm_NonceSize
         | Inr c \<Rightarrow> Decrypt L c key = Inr p"
proof (cases "length rnd < gcm_NonceSize")
  case True
  then show ?thesis
    using key by (simp add: Encrypt_def aes_NewCipher_def io_ReadFull_def)
next
  case False
  then have n: "length (take gcm_NonceSize rnd) = gcm_NonceSize" by simp
  have "gcm_Open L key (take gcm_NonceSize rnd) (gcm_Seal L key (take gcm_NonceSize rnd) p) = Some p"
    using lib n by blast
  then show ?thesis
    using key False n
    by (simp add: Encrypt_def Decrypt_def aes_NewCipher_def io_ReadFull_def)
qed

lemma demo_Open_Seal:
  "4 \<le> length key \<Longrightarrow>
   gcm_Open demo_crypto key nonce (gcm_Seal demo_crypto key nonce p) = Some p"
  by (simp add: demo_crypto_def comp_def xor.assoc)

theorem Decrypt_Encrypt_witness:
  "length (replicate 32 (1 :: byte)) = 32 \<and>
   Encrypt demo_crypto (replicate 12 2) [10, 20] (replicate 32 1)
     = Inr (replicate 12 2 @ [11, 21] @ replicate 4 1) \<and>
   Decrypt demo_crypto (replicate 12 2 @ [11, 21] @ replicate 4 1) (replicate 32 1)
     = Inr [10, 20]"
proof -
  have k: "length (replicate 32 (1 :: byte)) = 32" by simp
  have lib: "\<forall>nonce. length nonce = gcm_NonceSize \<longrightarrow>
      gcm_Open demo_crypto (replicate 32 1) nonce
        (gcm_Seal demo_crypto (replicate 32 1) nonce [10, 20]) = Some [10, 20]"
    by (simp add: demo_Open_Seal)
  have e: "Encrypt demo_crypto (replicate 12 2) [10, 20] (replicate 32 1)
     = Inr (replicate 12 2 @ [11, 21] @ replicate 4 1)"
    by (simp add: Encrypt_def aes_NewCipher_def io_ReadFull_def gcm_NonceSize_def demo_crypto_def)
  from Decrypt_Encrypt [OF k lib, of "replicate 12 2"] e k show ?thesis by simp
qed

section \<open>Properties of atomic persistence\<close>





section \<open>Properties of unlocking\<close>

text \<open>
  C1. \<open>UnlockVault\<close> of the service derives the key from freshly generated default
  parameters, not from the parameters stored in the file: on a vault written with the key
  of the password and the stored parameters, it fails to decrypt under the correct
  password as soon as the cipher rejects the key of the fresh parameters, where
  \<open>App_unlockVault\<close>, which loads the stored parameters first, returns the vault.
\<close>

theorem UnlockVault_fresh_params:
  assumes stored: "fs p = Some (encode_container paramsJSON (nonce @ gcm_Seal L key0 nonce vaultJSON))"
    and len: "length paramsJSON < 2 ^ 32"
    and params0: "json_Unmarshal_params J paramsJSON = Some params0"
    and key0: "DeriveKey L pw params0 = key0" "length key0 = 32"
    and nonce: "length nonce = gcm_NonceSize"
    and vault: "json_Unmarshal_vault J vaultJSON = Some vault"
    and accept: "gcm_Open L key0 nonce (gcm_Seal L key0 nonce vaultJSON) = Some vaultJSON"
    and fresh: "DefaultKeyDerivationParams rnd = Inr fresh" "length (DeriveKey L pw fresh) = 32"
    and reject: "gcm_Open L (DeriveKey L pw fresh) nonce (gcm_Seal L key0 nonce vaultJSON) = None"
  shows "UnlockVault L J rnd p fs masterKey pw =
           (Inl (DecryptVaultFailed DecryptionFailed), masterKey) \<and>
         App_unlockVault L J p fs pw = Inr (vault, key0)"
proof -
  let ?file = "encode_container paramsJSON (nonce @ gcm_Seal L key0 nonce vaultJSON)"
  have dec: "decode_container ?file = Inr (paramsJSON, nonce @ gcm_Seal L key0 nonce vaultJSON)"
    using len by (rule decode_encode_small)
  have peek: "peek_params ?file = Inr paramsJSON"
    using len by (rule peek_encode_small)
  have bad: "Load L J p fs (DeriveKey L pw fresh) = Inl (DecryptVaultFailed DecryptionFailed)"
    using stored dec params0 fresh(2) nonce reject
    by (simp add: Load_def os_ReadFile_def Load_bytes_def UnmarshalParams_def Decrypt_def
        aes_NewCipher_def)
  have good: "Load L J p fs key0 = Inr vault"
    using stored dec params0 key0(2) nonce accept vault
    by (simp add: Load_def os_ReadFile_def Load_bytes_def UnmarshalParams_def Decrypt_def
        aes_NewCipher_def)
  have lp: "LoadParams J p fs = Inr params0"
    using stored peek params0
    by (simp add: LoadParams_def os_ReadFile_def LoadParams_bytes_def UnmarshalParams_def)
  show ?thesis
    using bad good lp fresh(1) key0(1)
    by (simp add: UnlockVault_def App_unlockVault_def Let_def)
qed

text \<open>
  The witness: the stored salt is 32 bytes of 7, the random source delivers 32 bytes of 9.
\<close>

theorem UnlockVault_fresh_params_witness:
  "UnlockVault demo_crypto demo_json (replicate 32 9) ''vault.enc''
     (Map.empty(''vault.enc'' \<mapsto>
        encode_container (replicate 32 7)
          (replicate 12 2 @ gcm_Seal demo_crypto (replicate 32 7) (replicate 12 2) [10, 20])))
     None ''pw''
     = (Inl (DecryptVaultFailed DecryptionFailed), None) \<and>
   App_unlockVault demo_crypto demo_json ''vault.enc''
     (Map.empty(''vault.enc'' \<mapsto>
        encode_container (replicate 32 7)
          (replicate 12 2 @ gcm_Seal demo_crypto (replicate 32 7) (replicate 12 2) [10, 20])))
     ''pw''
     = Inr ([10, 20], replicate 32 7)"
proof -
  let ?L = demo_crypto and ?J = demo_json
  let ?k0 = "replicate 32 (7 :: byte)" and ?n = "replicate 12 (2 :: byte)"
  let ?file = "encode_container ?k0 (?n @ gcm_Seal ?L ?k0 ?n [10, 20])"
  let ?fs = "Map.empty(''vault.enc'' \<mapsto> ?file)"
  let ?params0 = "\<lparr>KdfAlgorithm = ''argon2id'', Iterations = 3, Memory = 64 * 1024,
               Parallelism = 4, Salt = ?k0, KeyLength = 32\<rparr>"
  let ?fresh = "\<lparr>KdfAlgorithm = ''argon2id'', Iterations = 3, Memory = 64 * 1024,
               Parallelism = 4, Salt = replicate 32 (9 :: byte), KeyLength = 32\<rparr>"
  have stored: "?fs ''vault.enc'' = Some ?file" by simp
  have len: "length ?k0 < 2 ^ 32" by simp
  have params0: "json_Unmarshal_params ?J ?k0 = Some ?params0" by (simp add: demo_json_def)
  have key0: "DeriveKey ?L ''pw'' ?params0 = ?k0" by (simp add: DeriveKey_def demo_crypto_def)
  have klen: "length ?k0 = 32" by simp
  have nonce: "length ?n = gcm_NonceSize" by (simp add: gcm_NonceSize_def)
  have vault: "json_Unmarshal_vault ?J [10, 20] = Some [10, 20]" by (simp add: demo_json_def)
  have accept: "gcm_Open ?L ?k0 ?n (gcm_Seal ?L ?k0 ?n [10, 20]) = Some [10, 20]"
    by (simp add: demo_Open_Seal)
  have fresh: "DefaultKeyDerivationParams (replicate 32 9) = Inr ?fresh"
    by (simp add: DefaultKeyDerivationParams_def io_ReadFull_def)
  have fk: "DeriveKey ?L ''pw'' ?fresh = replicate 32 9" by (simp add: DeriveKey_def demo_crypto_def)
  have flen: "length (DeriveKey ?L ''pw'' ?fresh) = 32" unfolding fk by simp
  have reject: "gcm_Open ?L (DeriveKey ?L ''pw'' ?fresh) ?n (gcm_Seal ?L ?k0 ?n [10, 20]) = None"
    unfolding fk by (simp add: demo_crypto_def)
  from UnlockVault_fresh_params [where fs = ?fs and p = "''vault.enc''" and masterKey = None,
      OF stored len params0 key0 klen nonce vault accept fresh flen reject]
  show ?thesis by simp
qed

section \<open>Evaluating SHA-1\<close>

text \<open>
  The values of HMAC-SHA1 that the theorems below need are computed block by block, each
  block by rewriting; the intermediate states are stated and checked one by one.
\<close>

lemma norm32_id: "norm32 w = w"
  by (simp add: norm32_def)

lemma replicate_num: "replicate (numeral k) x = x # replicate (pred_numeral k) x"
  by (simp add: numeral_eq_Suc)

lemma sha1_rounds_norm:
  "sha1_rounds f k (w # ws) (a, b, c, d, e) =
     sha1_rounds f k ws
       (norm32 ((norm32 (push_bit 5 a) OR drop_bit 27 a) + f b c d + e + k + w), a,
        norm32 (push_bit 30 b) OR drop_bit 2 b, c, d)"
  by (simp add: norm32_id rotl32_def)

lemma sha1_schedule_norm:
  "sha1_schedule (numeral k) ws =
     sha1_schedule (pred_numeral k)
       ((norm32 (push_bit 1 (ws ! 2 XOR ws ! 7 XOR ws ! 13 XOR ws ! 15))
          OR drop_bit 31 (ws ! 2 XOR ws ! 7 XOR ws ! 13 XOR ws ! 15)) # ws)"
  by (simp add: numeral_eq_Suc norm32_id rotl32_def)

lemma sha1_add_norm:
  "sha1_add (h0, h1, h2, h3, h4) (a, b, c, d, e) =
     (norm32 (h0 + a), norm32 (h1 + b), norm32 (h2 + c), norm32 (h3 + d), norm32 (h4 + e))"
  by (simp add: norm32_id)

lemmas sha1_block_eval = sha1_block_def sha1_Ch_def sha1_Parity_def sha1_Maj_def
  sha1_schedule_norm sha1_rounds_norm sha1_add_norm norm32_def rotl32_def Let_def
  replicate_num be64_def be32_def

lemma length_be64: "length (be64 w) = 8" by (simp add: be64_def)
lemma length_be32: "length (be32 w) = 4" by (simp add: be32_def)
lemma length_sha1_digest: "length (sha1_digest s) = 20"
  by (cases s) (simp add: length_be32)
lemma length_sha1: "length (sha1 m) = 20"
  by (simp add: sha1_def length_sha1_digest)

lemma sha1_two_blocks:
  assumes "64 \<le> length m" and "length m < 120"
  shows "sha1 m =
     sha1_digest (sha1_block (sha1_block sha1_init (take 64 m))
        (drop 64 m @ [0x80] @ replicate (119 - length m) 0 @ be64 (word_of_nat (8 * length m))))"
proof -
  let ?tail = "[0x80] @ replicate (119 - length m) 0 @ be64 (word_of_nat (8 * length m))"
  define n where "n = length m - 64"
  have lm: "length m = n + 64" and n: "n < 56"
    using assms by (simp_all add: n_def)
  have "(n + 64) mod 64 = n"
    using n by simp
  moreover have "(119 - n) mod 64 = 55 - n"
    using n by (simp add: mod_if)
  ultimately have r: "(119 - length m mod 64) mod 64 = 119 - length m"
    by (simp add: lm)
  have pad: "sha1_pad m = m @ ?tail"
    unfolding sha1_pad_def r by simp
  have len: "length (m @ ?tail) div 64 = Suc (Suc 0)"
    using assms by (simp add: length_be64)
  have t1: "take 64 (m @ ?tail) = take 64 m"
    using assms by simp
  have d1: "drop 64 (m @ ?tail) = drop 64 m @ ?tail"
    using assms by simp
  have t2: "take 64 (drop 64 m @ ?tail) = drop 64 m @ ?tail"
    using assms by (simp add: length_be64)
  show ?thesis
    unfolding sha1_def pad len sha1_blocks.simps t1 d1 t2 ..
qed

lemma hmac_sha1_short:
  assumes "length key \<le> 64" and "length msg \<le> 55"
  shows "hmac_sha1 key msg =
     sha1_digest (sha1_block (sha1_block sha1_init (map (\<lambda>b. b XOR 0x5c) (key @ replicate (64 - length key) 0)))
       (sha1_digest (sha1_block (sha1_block sha1_init (map (\<lambda>b. b XOR 0x36) (key @ replicate (64 - length key) 0)))
          (msg @ [0x80] @ replicate (55 - length msg) 0 @ be64 (word_of_nat (8 * (64 + length msg)))))
        @ [0x80] @ replicate 35 0 @ be64 672))"
  using assms
  by (simp add: hmac_sha1_def Let_def sha1_two_blocks length_sha1_digest)

lemma rfc_ipad_block:
  "sha1_block sha1_init
    [0x07, 0x04, 0x05, 0x02, 0x03, 0x00, 0x01, 0x0E, 0x0F, 0x06, 0x07, 0x04, 0x05, 0x02,
    0x03, 0x00, 0x01, 0x0E, 0x0F, 0x06, 0x36, 0x36, 0x36, 0x36, 0x36, 0x36, 0x36, 0x36,
    0x36, 0x36, 0x36, 0x36, 0x36, 0x36, 0x36, 0x36, 0x36, 0x36, 0x36, 0x36, 0x36, 0x36,
    0x36, 0x36, 0x36, 0x36, 0x36, 0x36, 0x36, 0x36, 0x36, 0x36, 0x36, 0x36, 0x36, 0x36,
    0x36, 0x36, 0x36, 0x36, 0x36, 0x36, 0x36, 0x36]
   = (0xCBC80C8C, 0xF599E2AC, 0xBDB8C832, 0xDA95C1C3, 0xF8683025)"
  by (simp add: sha1_block_eval sha1_init_def del: sha1_rounds.simps(2) sha1_add.simps)

lemma rfc_opad_block:
  "sha1_block sha1_init
    [0x6D, 0x6E, 0x6F, 0x68, 0x69, 0x6A, 0x6B, 0x64, 0x65, 0x6C, 0x6D, 0x6E, 0x6F, 0x68,
    0x69, 0x6A, 0x6B, 0x64, 0x65, 0x6C, 0x5C, 0x5C, 0x5C, 0x5C, 0x5C, 0x5C, 0x5C, 0x5C,
    0x5C, 0x5C, 0x5C, 0x5C, 0x5C, 0x5C, 0x5C, 0x5C, 0x5C, 0x5C, 0x5C, 0x5C, 0x5C, 0x5C,
    0x5C, 0x5C, 0x5C, 0x5C, 0x5C, 0x5C, 0x5C, 0x5C, 0x5C, 0x5C, 0x5C, 0x5C, 0x5C, 0x5C,
    0x5C, 0x5C, 0x5C, 0x5C, 0x5C, 0x5C, 0x5C, 0x5C]
   = (0x98BDBDCD, 0x58E07BFE, 0xAD5CDDEA, 0x3AC0430B, 0xFE106825)"
  by (simp add: sha1_block_eval sha1_init_def del: sha1_rounds.simps(2) sha1_add.simps)

lemma rfc_inner_block_1:
  "sha1_block (0xCBC80C8C, 0xF599E2AC, 0xBDB8C832, 0xDA95C1C3, 0xF8683025)
    [0x00, 0x00, 0x00, 0x00, 0x00, 0x00, 0x00, 0x01, 0x80, 0x00, 0x00, 0x00, 0x00, 0x00,
    0x00, 0x00, 0x00, 0x00, 0x00, 0x00, 0x00, 0x00, 0x00, 0x00, 0x00, 0x00, 0x00, 0x00,
    0x00, 0x00, 0x00, 0x00, 0x00, 0x00, 0x00, 0x00, 0x00, 0x00, 0x00, 0x00, 0x00, 0x00,
    0x00, 0x00, 0x00, 0x00, 0x00, 0x00, 0x00, 0x00, 0x00, 0x00, 0x00, 0x00, 0x00, 0x00,
    0x00, 0x00, 0x00, 0x00, 0x00, 0x00, 0x02, 0x40]
   = (0xAE398AD2, 0xE539D65C, 0x5DA2DA9C, 0x8A613441, 0x97393A8C)"
  by (simp add: sha1_block_eval del: sha1_rounds.simps(2) sha1_add.simps)

lemma rfc_outer_block_1:
  "sha1_block (0x98BDBDCD, 0x58E07BFE, 0xAD5CDDEA, 0x3AC0430B, 0xFE106825)
    [0xAE, 0x39, 0x8A, 0xD2, 0xE5, 0x39, 0xD6, 0x5C, 0x5D, 0xA2, 0xDA, 0x9C, 0x8A, 0x61,
    0x34, 0x41, 0x97, 0x39, 0x3A, 0x8C, 0x80, 0x00, 0x00, 0x00, 0x00, 0x00, 0x00, 0x00,
    0x00, 0x00, 0x00, 0x00, 0x00, 0x00, 0x00, 0x00, 0x00, 0x00, 0x00, 0x00, 0x00, 0x00,
    0x00, 0x00, 0x00, 0x00, 0x00, 0x00, 0x00, 0x00, 0x00, 0x00, 0x00, 0x00, 0x00, 0x00,
    0x00, 0x00, 0x00, 0x00, 0x00, 0x00, 0x02, 0xA0]
   = (0x75A48A19, 0xD4CBE100, 0x644E8AC1, 0x397EEA74, 0x7A2D33AB)"
  by (simp add: sha1_block_eval del: sha1_rounds.simps(2) sha1_add.simps)

lemma rfc_hmac_1:
  "hmac_sha1 rfc_key (be64 1) =
    [0x75, 0xA4, 0x8A, 0x19, 0xD4, 0xCB, 0xE1, 0x00, 0x64, 0x4E, 0x8A, 0xC1, 0x39, 0x7E,
    0xEA, 0x74, 0x7A, 0x2D, 0x33, 0xAB]"
proof -
  have k: "length rfc_key \<le> 64" and m: "length (be64 1) \<le> 55"
    by (simp_all add: rfc_key_def be64_def)
  have ipad: "map (\<lambda>b. b XOR 0x36) (rfc_key @ replicate (64 - length rfc_key) 0) =
      [0x07, 0x04, 0x05, 0x02, 0x03, 0x00, 0x01, 0x0E, 0x0F, 0x06, 0x07, 0x04, 0x05, 0x02,
      0x03, 0x00, 0x01, 0x0E, 0x0F, 0x06, 0x36, 0x36, 0x36, 0x36, 0x36, 0x36, 0x36, 0x36,
      0x36, 0x36, 0x36, 0x36, 0x36, 0x36, 0x36, 0x36, 0x36, 0x36, 0x36, 0x36, 0x36, 0x36,
      0x36, 0x36, 0x36, 0x36, 0x36, 0x36, 0x36, 0x36, 0x36, 0x36, 0x36, 0x36, 0x36, 0x36,
      0x36, 0x36, 0x36, 0x36, 0x36, 0x36, 0x36, 0x36]"
    by (simp add: rfc_key_def replicate_num)
  have opad: "map (\<lambda>b. b XOR 0x5c) (rfc_key @ replicate (64 - length rfc_key) 0) =
      [0x6D, 0x6E, 0x6F, 0x68, 0x69, 0x6A, 0x6B, 0x64, 0x65, 0x6C, 0x6D, 0x6E, 0x6F, 0x68,
      0x69, 0x6A, 0x6B, 0x64, 0x65, 0x6C, 0x5C, 0x5C, 0x5C, 0x5C, 0x5C, 0x5C, 0x5C, 0x5C,
      0x5C, 0x5C, 0x5C, 0x5C, 0x5C, 0x5C, 0x5C, 0x5C, 0x5C, 0x5C, 0x5C, 0x5C, 0x5C, 0x5C,
      0x5C, 0x5C, 0x5C, 0x5C, 0x5C, 0x5C, 0x5C, 0x5C, 0x5C, 0x5C, 0x5C, 0x5C, 0x5C, 0x5C,
      0x5C, 0x5C, 0x5C, 0x5C, 0x5C, 0x5C, 0x5C, 0x5C]"
    by (simp add: rfc_key_def replicate_num)
  have iblk: "be64 1 @ [0x80] @ replicate (55 - length (be64 1)) 0
       @ be64 (word_of_nat (8 * (64 + length (be64 1)))) =
      [0x00, 0x00, 0x00, 0x00, 0x00, 0x00, 0x00, 0x01, 0x80, 0x00, 0x00, 0x00, 0x00, 0x00,
      0x00, 0x00, 0x00, 0x00, 0x00, 0x00, 0x00, 0x00, 0x00, 0x00, 0x00, 0x00, 0x00, 0x00,
      0x00, 0x00, 0x00, 0x00, 0x00, 0x00, 0x00, 0x00, 0x00, 0x00, 0x00, 0x00, 0x00, 0x00,
      0x00, 0x00, 0x00, 0x00, 0x00, 0x00, 0x00, 0x00, 0x00, 0x00, 0x00, 0x00, 0x00, 0x00,
      0x00, 0x00, 0x00, 0x00, 0x00, 0x00, 0x02, 0x40]"
    by (simp add: be64_def replicate_num)
  have inner: "sha1_digest (0xAE398AD2, 0xE539D65C, 0x5DA2DA9C, 0x8A613441, 0x97393A8C) =
      [0xAE, 0x39, 0x8A, 0xD2, 0xE5, 0x39, 0xD6, 0x5C, 0x5D, 0xA2, 0xDA, 0x9C, 0x8A, 0x61,
      0x34, 0x41, 0x97, 0x39, 0x3A, 0x8C]"
    by (simp add: be32_def)
  have oblk: "[0xAE, 0x39, 0x8A, 0xD2, 0xE5, 0x39, 0xD6, 0x5C, 0x5D, 0xA2, 0xDA, 0x9C, 0x8A, 0x61, 0x34, 0x41, 0x97, 0x39, 0x3A, 0x8C] @ [0x80] @ replicate 35 0 @ be64 672 =
      [0xAE, 0x39, 0x8A, 0xD2, 0xE5, 0x39, 0xD6, 0x5C, 0x5D, 0xA2, 0xDA, 0x9C, 0x8A, 0x61,
      0x34, 0x41, 0x97, 0x39, 0x3A, 0x8C, 0x80, 0x00, 0x00, 0x00, 0x00, 0x00, 0x00, 0x00,
      0x00, 0x00, 0x00, 0x00, 0x00, 0x00, 0x00, 0x00, 0x00, 0x00, 0x00, 0x00, 0x00, 0x00,
      0x00, 0x00, 0x00, 0x00, 0x00, 0x00, 0x00, 0x00, 0x00, 0x00, 0x00, 0x00, 0x00, 0x00,
      0x00, 0x00, 0x00, 0x00, 0x00, 0x00, 0x02, 0xA0]"
    by (simp add: be64_def replicate_num)
  have outer: "sha1_digest (0x75A48A19, 0xD4CBE100, 0x644E8AC1, 0x397EEA74, 0x7A2D33AB) =
      [0x75, 0xA4, 0x8A, 0x19, 0xD4, 0xCB, 0xE1, 0x00, 0x64, 0x4E, 0x8A, 0xC1, 0x39, 0x7E,
      0xEA, 0x74, 0x7A, 0x2D, 0x33, 0xAB]"
    by (simp add: be32_def)
  show ?thesis
    unfolding hmac_sha1_short [OF k m] ipad opad iblk rfc_ipad_block rfc_opad_block
      rfc_inner_block_1 inner oblk rfc_outer_block_1 outer ..
qed

lemma rfc_inner_block_153567:
  "sha1_block (0xCBC80C8C, 0xF599E2AC, 0xBDB8C832, 0xDA95C1C3, 0xF8683025)
    [0x00, 0x00, 0x00, 0x00, 0x00, 0x02, 0x57, 0xDF, 0x80, 0x00, 0x00, 0x00, 0x00, 0x00,
    0x00, 0x00, 0x00, 0x00, 0x00, 0x00, 0x00, 0x00, 0x00, 0x00, 0x00, 0x00, 0x00, 0x00,
    0x00, 0x00, 0x00, 0x00, 0x00, 0x00, 0x00, 0x00, 0x00, 0x00, 0x00, 0x00, 0x00, 0x00,
    0x00, 0x00, 0x00, 0x00, 0x00, 0x00, 0x00, 0x00, 0x00, 0x00, 0x00, 0x00, 0x00, 0x00,
    0x00, 0x00, 0x00, 0x00, 0x00, 0x00, 0x02, 0x40]
   = (0xEE38AEFA, 0x49F1A501, 0x4A67230C, 0x5FF495F0, 0x93E39896)"
  by (simp add: sha1_block_eval del: sha1_rounds.simps(2) sha1_add.simps)

lemma rfc_outer_block_153567:
  "sha1_block (0x98BDBDCD, 0x58E07BFE, 0xAD5CDDEA, 0x3AC0430B, 0xFE106825)
    [0xEE, 0x38, 0xAE, 0xFA, 0x49, 0xF1, 0xA5, 0x01, 0x4A, 0x67, 0x23, 0x0C, 0x5F, 0xF4,
    0x95, 0xF0, 0x93, 0xE3, 0x98, 0x96, 0x80, 0x00, 0x00, 0x00, 0x00, 0x00, 0x00, 0x00,
    0x00, 0x00, 0x00, 0x00, 0x00, 0x00, 0x00, 0x00, 0x00, 0x00, 0x00, 0x00, 0x00, 0x00,
    0x00, 0x00, 0x00, 0x00, 0x00, 0x00, 0x00, 0x00, 0x00, 0x00, 0x00, 0x00, 0x00, 0x00,
    0x00, 0x00, 0x00, 0x00, 0x00, 0x00, 0x02, 0xA0]
   = (0xF8CB6F86, 0xCB9B4AE9, 0x00365C5A, 0x6FE4E35B, 0x74DA4E84)"
  by (simp add: sha1_block_eval del: sha1_rounds.simps(2) sha1_add.simps)

lemma rfc_hmac_153567:
  "hmac_sha1 rfc_key (be64 153567) =
    [0xF8, 0xCB, 0x6F, 0x86, 0xCB, 0x9B, 0x4A, 0xE9, 0x00, 0x36, 0x5C, 0x5A, 0x6F, 0xE4,
    0xE3, 0x5B, 0x74, 0xDA, 0x4E, 0x84]"
proof -
  have k: "length rfc_key \<le> 64" and m: "length (be64 153567) \<le> 55"
    by (simp_all add: rfc_key_def be64_def)
  have ipad: "map (\<lambda>b. b XOR 0x36) (rfc_key @ replicate (64 - length rfc_key) 0) =
      [0x07, 0x04, 0x05, 0x02, 0x03, 0x00, 0x01, 0x0E, 0x0F, 0x06, 0x07, 0x04, 0x05, 0x02,
      0x03, 0x00, 0x01, 0x0E, 0x0F, 0x06, 0x36, 0x36, 0x36, 0x36, 0x36, 0x36, 0x36, 0x36,
      0x36, 0x36, 0x36, 0x36, 0x36, 0x36, 0x36, 0x36, 0x36, 0x36, 0x36, 0x36, 0x36, 0x36,
      0x36, 0x36, 0x36, 0x36, 0x36, 0x36, 0x36, 0x36, 0x36, 0x36, 0x36, 0x36, 0x36, 0x36,
      0x36, 0x36, 0x36, 0x36, 0x36, 0x36, 0x36, 0x36]"
    by (simp add: rfc_key_def replicate_num)
  have opad: "map (\<lambda>b. b XOR 0x5c) (rfc_key @ replicate (64 - length rfc_key) 0) =
      [0x6D, 0x6E, 0x6F, 0x68, 0x69, 0x6A, 0x6B, 0x64, 0x65, 0x6C, 0x6D, 0x6E, 0x6F, 0x68,
      0x69, 0x6A, 0x6B, 0x64, 0x65, 0x6C, 0x5C, 0x5C, 0x5C, 0x5C, 0x5C, 0x5C, 0x5C, 0x5C,
      0x5C, 0x5C, 0x5C, 0x5C, 0x5C, 0x5C, 0x5C, 0x5C, 0x5C, 0x5C, 0x5C, 0x5C, 0x5C, 0x5C,
      0x5C, 0x5C, 0x5C, 0x5C, 0x5C, 0x5C, 0x5C, 0x5C, 0x5C, 0x5C, 0x5C, 0x5C, 0x5C, 0x5C,
      0x5C, 0x5C, 0x5C, 0x5C, 0x5C, 0x5C, 0x5C, 0x5C]"
    by (simp add: rfc_key_def replicate_num)
  have iblk: "be64 153567 @ [0x80] @ replicate (55 - length (be64 153567)) 0
       @ be64 (word_of_nat (8 * (64 + length (be64 153567)))) =
      [0x00, 0x00, 0x00, 0x00, 0x00, 0x02, 0x57, 0xDF, 0x80, 0x00, 0x00, 0x00, 0x00, 0x00,
      0x00, 0x00, 0x00, 0x00, 0x00, 0x00, 0x00, 0x00, 0x00, 0x00, 0x00, 0x00, 0x00, 0x00,
      0x00, 0x00, 0x00, 0x00, 0x00, 0x00, 0x00, 0x00, 0x00, 0x00, 0x00, 0x00, 0x00, 0x00,
      0x00, 0x00, 0x00, 0x00, 0x00, 0x00, 0x00, 0x00, 0x00, 0x00, 0x00, 0x00, 0x00, 0x00,
      0x00, 0x00, 0x00, 0x00, 0x00, 0x00, 0x02, 0x40]"
    by (simp add: be64_def replicate_num)
  have inner: "sha1_digest (0xEE38AEFA, 0x49F1A501, 0x4A67230C, 0x5FF495F0, 0x93E39896) =
      [0xEE, 0x38, 0xAE, 0xFA, 0x49, 0xF1, 0xA5, 0x01, 0x4A, 0x67, 0x23, 0x0C, 0x5F, 0xF4,
      0x95, 0xF0, 0x93, 0xE3, 0x98, 0x96]"
    by (simp add: be32_def)
  have oblk: "[0xEE, 0x38, 0xAE, 0xFA, 0x49, 0xF1, 0xA5, 0x01, 0x4A, 0x67, 0x23, 0x0C, 0x5F, 0xF4, 0x95, 0xF0, 0x93, 0xE3, 0x98, 0x96] @ [0x80] @ replicate 35 0 @ be64 672 =
      [0xEE, 0x38, 0xAE, 0xFA, 0x49, 0xF1, 0xA5, 0x01, 0x4A, 0x67, 0x23, 0x0C, 0x5F, 0xF4,
      0x95, 0xF0, 0x93, 0xE3, 0x98, 0x96, 0x80, 0x00, 0x00, 0x00, 0x00, 0x00, 0x00, 0x00,
      0x00, 0x00, 0x00, 0x00, 0x00, 0x00, 0x00, 0x00, 0x00, 0x00, 0x00, 0x00, 0x00, 0x00,
      0x00, 0x00, 0x00, 0x00, 0x00, 0x00, 0x00, 0x00, 0x00, 0x00, 0x00, 0x00, 0x00, 0x00,
      0x00, 0x00, 0x00, 0x00, 0x00, 0x00, 0x02, 0xA0]"
    by (simp add: be64_def replicate_num)
  have outer: "sha1_digest (0xF8CB6F86, 0xCB9B4AE9, 0x00365C5A, 0x6FE4E35B, 0x74DA4E84) =
      [0xF8, 0xCB, 0x6F, 0x86, 0xCB, 0x9B, 0x4A, 0xE9, 0x00, 0x36, 0x5C, 0x5A, 0x6F, 0xE4,
      0xE3, 0x5B, 0x74, 0xDA, 0x4E, 0x84]"
    by (simp add: be32_def)
  show ?thesis
    unfolding hmac_sha1_short [OF k m] ipad opad iblk rfc_ipad_block rfc_opad_block
      rfc_inner_block_153567 inner oblk rfc_outer_block_153567 outer ..
qed

lemma rfc_inner_block_153569:
  "sha1_block (0xCBC80C8C, 0xF599E2AC, 0xBDB8C832, 0xDA95C1C3, 0xF8683025)
    [0x00, 0x00, 0x00, 0x00, 0x00, 0x02, 0x57, 0xE1, 0x80, 0x00, 0x00, 0x00, 0x00, 0x00,
    0x00, 0x00, 0x00, 0x00, 0x00, 0x00, 0x00, 0x00, 0x00, 0x00, 0x00, 0x00, 0x00, 0x00,
    0x00, 0x00, 0x00, 0x00, 0x00, 0x00, 0x00, 0x00, 0x00, 0x00, 0x00, 0x00, 0x00, 0x00,
    0x00, 0x00, 0x00, 0x00, 0x00, 0x00, 0x00, 0x00, 0x00, 0x00, 0x00, 0x00, 0x00, 0x00,
    0x00, 0x00, 0x00, 0x00, 0x00, 0x00, 0x02, 0x40]
   = (0xFC002074, 0xED576895, 0xEE873B39, 0x6E79F93E, 0x3D334FE3)"
  by (simp add: sha1_block_eval del: sha1_rounds.simps(2) sha1_add.simps)

lemma rfc_outer_block_153569:
  "sha1_block (0x98BDBDCD, 0x58E07BFE, 0xAD5CDDEA, 0x3AC0430B, 0xFE106825)
    [0xFC, 0x00, 0x20, 0x74, 0xED, 0x57, 0x68, 0x95, 0xEE, 0x87, 0x3B, 0x39, 0x6E, 0x79,
    0xF9, 0x3E, 0x3D, 0x33, 0x4F, 0xE3, 0x80, 0x00, 0x00, 0x00, 0x00, 0x00, 0x00, 0x00,
    0x00, 0x00, 0x00, 0x00, 0x00, 0x00, 0x00, 0x00, 0x00, 0x00, 0x00, 0x00, 0x00, 0x00,
    0x00, 0x00, 0x00, 0x00, 0x00, 0x00, 0x00, 0x00, 0x00, 0x00, 0x00, 0x00, 0x00, 0x00,
    0x00, 0x00, 0x00, 0x00, 0x00, 0x00, 0x02, 0xA0]
   = (0x991F1929, 0x523F0EC3, 0xF59E55FF, 0x45031DAF, 0x2182F150)"
  by (simp add: sha1_block_eval del: sha1_rounds.simps(2) sha1_add.simps)

lemma rfc_hmac_153569:
  "hmac_sha1 rfc_key (be64 153569) =
    [0x99, 0x1F, 0x19, 0x29, 0x52, 0x3F, 0x0E, 0xC3, 0xF5, 0x9E, 0x55, 0xFF, 0x45, 0x03,
    0x1D, 0xAF, 0x21, 0x82, 0xF1, 0x50]"
proof -
  have k: "length rfc_key \<le> 64" and m: "length (be64 153569) \<le> 55"
    by (simp_all add: rfc_key_def be64_def)
  have ipad: "map (\<lambda>b. b XOR 0x36) (rfc_key @ replicate (64 - length rfc_key) 0) =
      [0x07, 0x04, 0x05, 0x02, 0x03, 0x00, 0x01, 0x0E, 0x0F, 0x06, 0x07, 0x04, 0x05, 0x02,
      0x03, 0x00, 0x01, 0x0E, 0x0F, 0x06, 0x36, 0x36, 0x36, 0x36, 0x36, 0x36, 0x36, 0x36,
      0x36, 0x36, 0x36, 0x36, 0x36, 0x36, 0x36, 0x36, 0x36, 0x36, 0x36, 0x36, 0x36, 0x36,
      0x36, 0x36, 0x36, 0x36, 0x36, 0x36, 0x36, 0x36, 0x36, 0x36, 0x36, 0x36, 0x36, 0x36,
      0x36, 0x36, 0x36, 0x36, 0x36, 0x36, 0x36, 0x36]"
    by (simp add: rfc_key_def replicate_num)
  have opad: "map (\<lambda>b. b XOR 0x5c) (rfc_key @ replicate (64 - length rfc_key) 0) =
      [0x6D, 0x6E, 0x6F, 0x68, 0x69, 0x6A, 0x6B, 0x64, 0x65, 0x6C, 0x6D, 0x6E, 0x6F, 0x68,
      0x69, 0x6A, 0x6B, 0x64, 0x65, 0x6C, 0x5C, 0x5C, 0x5C, 0x5C, 0x5C, 0x5C, 0x5C, 0x5C,
      0x5C, 0x5C, 0x5C, 0x5C, 0x5C, 0x5C, 0x5C, 0x5C, 0x5C, 0x5C, 0x5C, 0x5C, 0x5C, 0x5C,
      0x5C, 0x5C, 0x5C, 0x5C, 0x5C, 0x5C, 0x5C, 0x5C, 0x5C, 0x5C, 0x5C, 0x5C, 0x5C, 0x5C,
      0x5C, 0x5C, 0x5C, 0x5C, 0x5C, 0x5C, 0x5C, 0x5C]"
    by (simp add: rfc_key_def replicate_num)
  have iblk: "be64 153569 @ [0x80] @ replicate (55 - length (be64 153569)) 0
       @ be64 (word_of_nat (8 * (64 + length (be64 153569)))) =
      [0x00, 0x00, 0x00, 0x00, 0x00, 0x02, 0x57, 0xE1, 0x80, 0x00, 0x00, 0x00, 0x00, 0x00,
      0x00, 0x00, 0x00, 0x00, 0x00, 0x00, 0x00, 0x00, 0x00, 0x00, 0x00, 0x00, 0x00, 0x00,
      0x00, 0x00, 0x00, 0x00, 0x00, 0x00, 0x00, 0x00, 0x00, 0x00, 0x00, 0x00, 0x00, 0x00,
      0x00, 0x00, 0x00, 0x00, 0x00, 0x00, 0x00, 0x00, 0x00, 0x00, 0x00, 0x00, 0x00, 0x00,
      0x00, 0x00, 0x00, 0x00, 0x00, 0x00, 0x02, 0x40]"
    by (simp add: be64_def replicate_num)
  have inner: "sha1_digest (0xFC002074, 0xED576895, 0xEE873B39, 0x6E79F93E, 0x3D334FE3) =
      [0xFC, 0x00, 0x20, 0x74, 0xED, 0x57, 0x68, 0x95, 0xEE, 0x87, 0x3B, 0x39, 0x6E, 0x79,
      0xF9, 0x3E, 0x3D, 0x33, 0x4F, 0xE3]"
    by (simp add: be32_def)
  have oblk: "[0xFC, 0x00, 0x20, 0x74, 0xED, 0x57, 0x68, 0x95, 0xEE, 0x87, 0x3B, 0x39, 0x6E, 0x79, 0xF9, 0x3E, 0x3D, 0x33, 0x4F, 0xE3] @ [0x80] @ replicate 35 0 @ be64 672 =
      [0xFC, 0x00, 0x20, 0x74, 0xED, 0x57, 0x68, 0x95, 0xEE, 0x87, 0x3B, 0x39, 0x6E, 0x79,
      0xF9, 0x3E, 0x3D, 0x33, 0x4F, 0xE3, 0x80, 0x00, 0x00, 0x00, 0x00, 0x00, 0x00, 0x00,
      0x00, 0x00, 0x00, 0x00, 0x00, 0x00, 0x00, 0x00, 0x00, 0x00, 0x00, 0x00, 0x00, 0x00,
      0x00, 0x00, 0x00, 0x00, 0x00, 0x00, 0x00, 0x00, 0x00, 0x00, 0x00, 0x00, 0x00, 0x00,
      0x00, 0x00, 0x00, 0x00, 0x00, 0x00, 0x02, 0xA0]"
    by (simp add: be64_def replicate_num)
  have outer: "sha1_digest (0x991F1929, 0x523F0EC3, 0xF59E55FF, 0x45031DAF, 0x2182F150) =
      [0x99, 0x1F, 0x19, 0x29, 0x52, 0x3F, 0x0E, 0xC3, 0xF5, 0x9E, 0x55, 0xFF, 0x45, 0x03,
      0x1D, 0xAF, 0x21, 0x82, 0xF1, 0x50]"
    by (simp add: be32_def)
  show ?thesis
    unfolding hmac_sha1_short [OF k m] ipad opad iblk rfc_ipad_block rfc_opad_block
      rfc_inner_block_153569 inner oblk rfc_outer_block_153569 outer ..
qed

section \<open>Properties of code generation\<close>

lemmas char_eval = char_of_def bit_iff_odd drop_bit_eq_div

lemma rfc_secret: "base32_DecodeString G (ToUpper G (Secret rfc_config)) = Some rfc_key"
  by (simp add: rfc_config_def ToUpper_def is_ascii_def ascii_upper_def
      base32_DecodeString_def b32_regular_def b32_value_def List.map_filter_simps rfc_key_def)

lemma rfc_period: "Seconds_uint64 G (Period rfc_config) = 30"
  by (simp add: rfc_config_def Seconds_uint64_def Second_def)

lemma rfc_hotp_1: "generateHOTP G rfc_config rfc_key 1 = Returns ''287082''"
  by (simp add: generateHOTP_def hmac_New_def rfc_config_def rfc_hmac_1 be32_read_def
      format_code_def pad_zeros_def decimal.simps char_eval Let_def)

lemma rfc_hotp_153567: "generateHOTP G rfc_config rfc_key 153567 = Returns ''468457''"
  by (simp add: generateHOTP_def hmac_New_def rfc_config_def rfc_hmac_153567 be32_read_def
      format_code_def pad_zeros_def decimal.simps char_eval Let_def)

lemma rfc_hotp_153569: "generateHOTP G rfc_config rfc_key 153569 = Returns ''468457''"
  by (simp add: generateHOTP_def hmac_New_def rfc_config_def rfc_hmac_153569 be32_read_def
      format_code_def pad_zeros_def decimal.simps char_eval Let_def)

text \<open>
  C7. With the secret \<^verbatim>\<open>GEZDGNBVGY3TQOJQGEZDGNBVGY3TQOJQ\<close>, SHA1, 6 digits and a period
  of 30 seconds, \<open>GenerateCodeAt\<close> at the Unix time 59 returns the code 287082 and a time
  until expiry of \<open>10 ^ 9\<close> nanoseconds, one second.
\<close>

theorem GenerateCodeAt_rfc_vector:
  "GenerateCodeAt G rfc_config (59 * Second) = Returns (''287082'', 1000000000)"
  by (simp add: GenerateCodeAt_def rfc_secret rfc_period Unix_def rfc_hotp_1)
    (simp add: Second_def)

lemma length_word_bytes: "length (word_bytes n w) = n"
  by (induction n arbitrary: w) simp_all

lemma length_hmac_sha1: "length (hmac_sha1 key msg) = 20"
  by (simp add: hmac_sha1_def Let_def length_sha1)

lemma hmac_New_length:
  assumes "hmac_New G alg = Some h"
  shows "20 \<le> length (h key msg)"
  using assms
  by (auto simp: hmac_New_def length_hmac_sha1 length_word_bytes split: if_splits)

lemma low_nibble_bound: "unat ((x :: byte) AND 0xf) < 16"
proof -
  have "unat (x AND 15) \<le> unat (15 :: byte)"
    by (rule word_and_le1 [THEN word_le_nat_alt [THEN iffD1]])
  then show ?thesis by simp
qed

lemma generateHOTP_returns:
  assumes alg: "hmac_New G (Algorithm c) = Some h"
    and digits: "0 \<le> sint (Digits c)" "sint (Digits c) \<le> 9"
  shows "\<exists>code. generateHOTP G c secret counter = Returns code"
proof -
  have len: "20 \<le> length (h secret (be64 counter))"
    using alg by (rule hmac_New_length)
  then have ne: "h secret (be64 counter) \<noteq> []" by auto
  have off: "unat (last (h secret (be64 counter)) AND 0xf) + 4 \<le> length (h secret (be64 counter))"
    using len low_nibble_bound [of "last (h secret (be64 counter))"] by simp
  show ?thesis
    using alg digits ne off
    by (simp add: generateHOTP_def Let_def format_code_def not_less)
qed

lemma Seconds_uint64_whole:
  assumes "0 < sint d" and "sint d mod Second = 0"
  shows "Seconds_uint64 G d = word_of_int (sint d div Second)"
    and "Seconds_uint64 G d \<noteq> 0"
    and "uint (Seconds_uint64 G d) = sint d div Second"
proof -
  show eq: "Seconds_uint64 G d = word_of_int (sint d div Second)"
    using assms by (simp add: Seconds_uint64_def)
  have "sint d div Second * Second = sint d"
    using assms(2) div_mult_mod_eq [of "sint d" Second] by simp
  then have "0 < sint d div Second * Second"
    using assms(1) by simp
  then have ge: "1 \<le> sint d div Second"
    by (simp add: Second_def zero_less_mult_iff)
  have "sint d < 2 ^ 63"
    using sint_lt [of d] by simp
  moreover have "sint d div Second \<le> sint d"
    using assms(1) by (rule int_div_le_self)
  ultimately have lt: "sint d div Second < 2 ^ 64"
    by simp
  show u: "uint (Seconds_uint64 G d) = sint d div Second"
    using ge lt by (simp add: eq uint_word_of_int)
  show "Seconds_uint64 G d \<noteq> 0"
    using u ge by (metis not_one_le_zero uint_0_eq)
qed

lemma sint_minus_pos:
  fixes d :: "64 word"
  assumes "0 < sint d"
  shows "sint (- d) = - sint d"
proof -
  have "sint d < 2 ^ 63" using sint_lt [of d] by simp
  then have "- (2 ^ 63) \<le> - sint d" "- sint d < 2 ^ 63"
    using assms by simp_all
  then show ?thesis
    by (simp add: sint_word_minus signed_take_bit_int_eq_self)
qed

lemma word_div_of_int:
  assumes "0 \<le> u" "u < 2 ^ 64" "0 < n" "n < 2 ^ 64"
  shows "(word_of_int u :: 64 word) div word_of_int n = word_of_int (u div n)"
proof -
  have "u div n \<le> u"
    using assms(1) by (cases "u = 0") (simp_all add: int_div_le_self)
  then have du: "0 \<le> u div n" "u div n < 2 ^ 64"
    using assms by (simp_all add: pos_imp_zdiv_nonneg_iff)
  have "uint ((word_of_int u :: 64 word) div word_of_int n) = u div n"
    using assms by (simp add: uint_div uint_word_of_int)
  moreover have "uint (word_of_int (u div n) :: 64 word) = u div n"
    using du by (simp add: uint_word_of_int)
  ultimately show ?thesis
    by (simp add: word_uint_eq_iff)
qed

lemma GenerateCodeAt_returns:
  assumes secret: "base32_DecodeString G (ToUpper G (Secret c)) = Some secret"
    and alg: "hmac_New G (Algorithm c) = Some h"
    and digits: "0 \<le> sint (Digits c)" "sint (Digits c) \<le> 9"
    and period: "0 < sint (Period c)" "sint (Period c) mod Second = 0"
  shows "\<exists>code e. GenerateCodeAt G c t = Returns (code, e) \<and>
           generateHOTP G c secret
             ((word_of_int (Unix t) :: 64 word) div word_of_int (sint (Period c) div Second))
             = Returns code"
proof -
  let ?w = "(word_of_int (Unix t) :: 64 word) div word_of_int (sint (Period c) div Second)"
  obtain code where code: "generateHOTP G c secret ?w = Returns code"
    using generateHOTP_returns [OF alg digits] by blast
  show ?thesis
    using secret code Seconds_uint64_whole(1,2) [OF period, of G]
    by (simp add: GenerateCodeAt_def Let_def)
qed

lemma Unix_add_whole:
  assumes "p mod Second = 0"
  shows "Unix (t + p) = Unix t + p div Second" and "Unix (t - p) = Unix t - p div Second"
proof -
  have p: "p = (p div Second) * Second"
    using assms div_mult_mod_eq [of p Second] by simp
  have "t + p = t + (p div Second) * Second" "t - p = t + (- (p div Second)) * Second"
    using p by simp_all
  then show "Unix (t + p) = Unix t + p div Second" and "Unix (t - p) = Unix t - p div Second"
    unfolding Unix_def by (simp_all add: Second_def)
qed

lemma div_shift:
  fixes u n :: int
  assumes "0 < n"
  shows "(u + n) div n = u div n + 1" and "(u - n) div n = u div n - 1"
  using assms div_add_self2 [of n u] div_add_self2 [of n "u - n"] by simp_all

lemma div_lt_bound:
  fixes x m S :: int
  assumes "x < m * S" and "0 < S"
  shows "x div S < m"
proof (rule ccontr)
  assume "\<not> x div S < m"
  then have "m * S \<le> (x div S) * S"
    using assms(2) by (simp add: mult_right_mono)
  moreover have "(x div S) * S \<le> x"
    using div_mult_mod_eq [of x S] pos_mod_sign [OF assms(2), of x] by linarith
  ultimately show False using assms(1) by simp
qed


text \<open>
  C8 (as amended). For every configuration whose secret decodes, whose algorithm is
  supported, with 0 to 9 digits and a period of a positive whole number of seconds, and
  every time \<open>t\<close> at least one period after the epoch: the windows \<open>w - 1\<close>, \<open>w\<close> and
  \<open>w + 1\<close> have codes, where \<open>w\<close> is the Unix time divided by the period;
  \<open>ValidateAt\<close> returns true exactly for these three codes; and the code of the window of
  \<open>t\<close> is accepted one period later and one period earlier. Two periods away the same
  rule applies, so a code is accepted there exactly when it is the code of one of the
  three windows around that time.
\<close>

theorem ValidateAt_tolerance:
  assumes secret: "base32_DecodeString G (ToUpper G (Secret c)) = Some secret"
    and alg: "hmac_New G (Algorithm c) = Some h"
    and digits: "0 \<le> sint (Digits c)" "sint (Digits c) \<le> 9"
    and period: "0 < sint (Period c)" "sint (Period c) mod Second = 0"
    and time: "sint (Period c) \<le> t" "t + sint (Period c) < 2 ^ 64 * Second"
  shows "\<exists>k0 k1 k2.
           generateHOTP G c secret (word_of_int (Unix t div (sint (Period c) div Second))) = Returns k0 \<and>
           generateHOTP G c secret (word_of_int (Unix t div (sint (Period c) div Second)) - 1) = Returns k1 \<and>
           generateHOTP G c secret (word_of_int (Unix t div (sint (Period c) div Second)) + 1) = Returns k2 \<and>
           (\<forall>code. ValidateAt G c code t = Returns (code = k0 \<or> code = k1 \<or> code = k2)) \<and>
           ValidateAt G c k0 (t + sint (Period c)) = Returns True \<and>
           ValidateAt G c k0 (t - sint (Period c)) = Returns True"
proof -
  let ?P = "sint (Period c)"
  let ?n = "?P div Second"
  let ?u = "Unix t"
  note gen = GenerateCodeAt_returns [OF secret alg digits period]
  have neg: "sint (- Period c) = - ?P"
    using period(1) by (rule sint_minus_pos)
  have n: "0 < ?n" "?n < 2 ^ 64"
    using Seconds_uint64_whole(3) [OF period, of G] Seconds_uint64_whole(2) [OF period, of G]
      uint_lt2p [of "Seconds_uint64 G (Period c)"]
    by (simp_all add: word_neq_0_conv word_less_def)
  have P: "?P = ?n * Second"
    using period(2) div_mult_mod_eq [of ?P Second] by simp
  have u_lo: "?n \<le> ?u"
  proof -
    have "?n * Second div Second \<le> t div Second"
      using time(1) P by (intro zdiv_mono1) (simp_all add: Second_def)
    then show ?thesis by (simp add: Unix_def Second_def)
  qed
  have u_hi: "?u + ?n < 2 ^ 64"
  proof -
    have "(t + ?P) div Second < 2 ^ 64"
      using time(2) by (intro div_lt_bound) (simp_all add: Second_def)
    then show ?thesis
      using Unix_add_whole(1) [OF period(2), of t] by (simp add: Unix_def)
  qed
  have w0: "(word_of_int ?u :: 64 word) div word_of_int ?n = word_of_int (?u div ?n)"
    using n u_lo u_hi by (intro word_div_of_int) simp_all
  have w1: "(word_of_int (Unix (t - ?P)) :: 64 word) div word_of_int ?n = word_of_int (?u div ?n) - 1"
  proof -
    have "(word_of_int (?u - ?n) :: 64 word) div word_of_int ?n = word_of_int ((?u - ?n) div ?n)"
      using n u_lo u_hi by (intro word_div_of_int) simp_all
    then show ?thesis
      using div_shift(2) [OF n(1), of ?u] Unix_add_whole(2) [OF period(2), of t] by simp
  qed
  have w2: "(word_of_int (Unix (t + ?P)) :: 64 word) div word_of_int ?n = word_of_int (?u div ?n) + 1"
  proof -
    have "(word_of_int (?u + ?n) :: 64 word) div word_of_int ?n = word_of_int ((?u + ?n) div ?n)"
      using n u_lo u_hi by (intro word_div_of_int) simp_all
    then show ?thesis
      using div_shift(1) [OF n(1), of ?u] Unix_add_whole(1) [OF period(2), of t] by simp
  qed
  obtain k0 e0 where g0: "GenerateCodeAt G c t = Returns (k0, e0)"
    and h0: "generateHOTP G c secret (word_of_int (?u div ?n)) = Returns k0"
    using gen [of t] w0 by auto
  obtain k1 e1 where g1: "GenerateCodeAt G c (t - ?P) = Returns (k1, e1)"
    and h1: "generateHOTP G c secret (word_of_int (?u div ?n) - 1) = Returns k1"
    using gen [of "t - ?P"] w1 by auto
  obtain k2 e2 where g2: "GenerateCodeAt G c (t + ?P) = Returns (k2, e2)"
    and h2: "generateHOTP G c secret (word_of_int (?u div ?n) + 1) = Returns k2"
    using gen [of "t + ?P"] w2 by auto
  obtain k3 e3 where g3: "GenerateCodeAt G c (t - ?P - ?P) = Returns (k3, e3)"
    using gen [of "t - ?P - ?P"] by auto
  have all: "\<forall>code. ValidateAt G c code t = Returns (code = k0 \<or> code = k1 \<or> code = k2)"
    using g0 g1 g2 by (auto simp: ValidateAt_def neg code_matches_def)
  have plus: "ValidateAt G c k0 (t + ?P) = Returns True"
    using g0 g2 by (simp add: ValidateAt_def neg code_matches_def)
  have minus: "ValidateAt G c k0 (t - ?P) = Returns True"
    using g0 g1 g3 by (simp add: ValidateAt_def neg code_matches_def)
  show ?thesis
    using h0 h1 h2 all plus minus by blast
qed

theorem ValidateAt_tolerance_witness:
  "base32_DecodeString demo_golib (ToUpper demo_golib (Secret rfc_config)) = Some rfc_key \<and>
   hmac_New demo_golib (Algorithm rfc_config) = Some hmac_sha1 \<and>
   (\<exists>k0 k1 k2.
      generateHOTP demo_golib rfc_config rfc_key 1 = Returns k0 \<and>
      generateHOTP demo_golib rfc_config rfc_key 0 = Returns k1 \<and>
      generateHOTP demo_golib rfc_config rfc_key 2 = Returns k2 \<and>
      (\<forall>code. ValidateAt demo_golib rfc_config code (59 * Second)
                 = Returns (code = k0 \<or> code = k1 \<or> code = k2)) \<and>
      ValidateAt demo_golib rfc_config k0 (89 * Second) = Returns True \<and>
      ValidateAt demo_golib rfc_config k0 (29 * Second) = Returns True)"
proof -
  have alg: "hmac_New demo_golib (Algorithm rfc_config) = Some hmac_sha1"
    by (simp add: hmac_New_def rfc_config_def)
  have digits: "0 \<le> sint (Digits rfc_config)" "sint (Digits rfc_config) \<le> 9"
    by (simp_all add: rfc_config_def)
  have period: "0 < sint (Period rfc_config)" "sint (Period rfc_config) mod Second = 0"
    by (simp_all add: rfc_config_def Second_def)
  have time: "sint (Period rfc_config) \<le> 59 * Second"
    "59 * Second + sint (Period rfc_config) < 2 ^ 64 * Second"
    by (simp_all add: rfc_config_def Second_def)
  have P: "sint (Period rfc_config) = 30 * Second"
    by (simp add: rfc_config_def Second_def)
  show ?thesis
    using ValidateAt_tolerance [OF rfc_secret alg digits period time] rfc_secret [of demo_golib] alg
    by (simp add: P Unix_def) (simp add: Second_def)
qed


text \<open>
  C8 as stated fails: the code generated at the Unix time 4607010 (window 153567) is
  accepted two periods later, at 4607070 (window 153569), because the two windows have
  the same code.
\<close>

theorem ValidateAt_two_periods_counterexample:
  "GenerateCodeAt demo_golib rfc_config (4607010 * Second) = Returns (''468457'', 30 * 1000000000) \<and>
   ValidateAt demo_golib rfc_config ''468457'' (4607070 * Second) = Returns True"
proof -
  have a: "GenerateCodeAt demo_golib rfc_config (4607010 * Second) =
      Returns (''468457'', 30 * 1000000000)"
    by (simp add: GenerateCodeAt_def rfc_secret rfc_period Unix_def rfc_hotp_153567)
      (simp add: Second_def)
  have b: "GenerateCodeAt demo_golib rfc_config (4607070 * Second) =
      Returns (''468457'', 30 * 1000000000)"
    by (simp add: GenerateCodeAt_def rfc_secret rfc_period Unix_def rfc_hotp_153569)
      (simp add: Second_def)
  have "ValidateAt demo_golib rfc_config ''468457'' (4607070 * Second) =
      Returns True"
    by (simp add: ValidateAt_def b code_matches_def)
  with a show ?thesis by simp
qed


text \<open>
  C10. \<open>GenerateCodeAt\<close> divides the Unix time by the period in seconds with no guard:
  for a period of a positive whole number of seconds the divisor is not zero and the
  result is that of \<open>generateHOTP\<close> at the quotient; for a period of 0 and a secret that
  decodes the division panics; and \<open>ParseURI\<close> returns such a configuration for a URI
  that carries \<^verbatim>\<open>period=0\<close>, on which the generation panics.
\<close>

theorem GenerateCodeAt_zero_period:
  "(0 < sint (Period c) \<and> sint (Period c) mod Second = 0 \<longrightarrow>
      Seconds_uint64 G (Period c) \<noteq> 0 \<and>
      GenerateCodeAt G c t =
        (case base32_DecodeString G (ToUpper G (Secret c)) of
           None \<Rightarrow> Fails InvalidSecret
         | Some secret \<Rightarrow>
             (case generateHOTP G c secret
                     (word_of_int (Unix t) div word_of_int (sint (Period c) div Second)) of
                Panics p \<Rightarrow> Panics p
              | Fails e \<Rightarrow> Fails e
              | Returns code \<Rightarrow>
                  Returns (code,
                    ((word_of_int (Unix t) div word_of_int (sint (Period c) div Second) + 1)
                       * word_of_int (sint (Period c) div Second) - word_of_int (Unix t))
                      * 1000000000)))) \<and>
   (Period c = 0 \<longrightarrow>
      GenerateCodeAt G c t =
        (case base32_DecodeString G (ToUpper G (Secret c)) of
           None \<Rightarrow> Fails InvalidSecret
         | Some secret \<Rightarrow> Panics DivideByZero)) \<and>
   ParseURI G ''otpauth://totp/x?secret=GEZDGNBV&period=0'' =
     Returns \<lparr>Secret = ''GEZDGNBV'', Period = 0, Digits = 6, Algorithm = ''SHA1'',
              Issuer = [], Account = ''x''\<rparr> \<and>
   GenerateCodeAt G \<lparr>Secret = ''GEZDGNBV'', Period = 0, Digits = 6, Algorithm = ''SHA1'',
              Issuer = [], Account = ''x''\<rparr> t = Panics DivideByZero"
proof (intro conjI impI)
  assume p: "0 < sint (Period c) \<and> sint (Period c) mod Second = 0"
  then have p1: "0 < sint (Period c)" and p2: "sint (Period c) mod Second = 0"
    by simp_all
  show "Seconds_uint64 G (Period c) \<noteq> 0"
    using p1 p2 by (rule Seconds_uint64_whole(2))
  show "GenerateCodeAt G c t =
        (case base32_DecodeString G (ToUpper G (Secret c)) of
           None \<Rightarrow> Fails InvalidSecret
         | Some secret \<Rightarrow>
             (case generateHOTP G c secret
                     (word_of_int (Unix t) div word_of_int (sint (Period c) div Second)) of
                Panics p \<Rightarrow> Panics p
              | Fails e \<Rightarrow> Fails e
              | Returns code \<Rightarrow>
                  Returns (code,
                    ((word_of_int (Unix t) div word_of_int (sint (Period c) div Second) + 1)
                       * word_of_int (sint (Period c) div Second) - word_of_int (Unix t))
                      * 1000000000)))"
    using Seconds_uint64_whole(1,2) [OF p1 p2, of G]
    by (simp add: GenerateCodeAt_def Let_def split: option.splits outcome.splits)
next
  assume "Period c = 0"
  then show "GenerateCodeAt G c t =
        (case base32_DecodeString G (ToUpper G (Secret c)) of
           None \<Rightarrow> Fails InvalidSecret
         | Some secret \<Rightarrow> Panics DivideByZero)"
    by (simp add: GenerateCodeAt_def Seconds_uint64_def Second_def split: option.splits)
next
  show "ParseURI G ''otpauth://totp/x?secret=GEZDGNBV&period=0'' =
     Returns \<lparr>Secret = ''GEZDGNBV'', Period = 0, Digits = 6, Algorithm = ''SHA1'',
              Issuer = [], Account = ''x''\<rparr>"
    by (simp add: ParseURI_def url_Parse_def is_CTL_def is_alpha_def is_alnum_def ascii_lower_def
        ParseQuery_def query_pair_def List.map_filter_simps Atoi_def is_digit_def digits_value_def
        Values_Get_def DefaultConfig_def parse_period_def parse_digits_def apply_label_def
        TrimPrefix_slash_def Let_def)
next
  show "GenerateCodeAt G \<lparr>Secret = ''GEZDGNBV'', Period = 0, Digits = 6, Algorithm = ''SHA1'',
              Issuer = [], Account = ''x''\<rparr> t = Panics DivideByZero"
    by (simp add: GenerateCodeAt_def Seconds_uint64_def Second_def ToUpper_def is_ascii_def
        ascii_upper_def base32_DecodeString_def b32_regular_def b32_value_def)
qed


theorem GenerateCodeAt_zero_period_witness:
  "0 < sint (Period rfc_config) \<and> sint (Period rfc_config) mod Second = 0 \<and>
   Seconds_uint64 demo_golib (Period rfc_config) \<noteq> 0 \<and>
   Period (rfc_config\<lparr>Period := 0\<rparr>) = 0 \<and>
   GenerateCodeAt demo_golib (rfc_config\<lparr>Period := 0\<rparr>) (59 * Second) = Panics DivideByZero"
proof -
  have p: "0 < sint (Period rfc_config) \<and> sint (Period rfc_config) mod Second = 0"
    by (simp add: rfc_config_def Second_def)
  have z: "Period (rfc_config\<lparr>Period := 0\<rparr>) = 0" by simp
  have s: "base32_DecodeString demo_golib (ToUpper demo_golib (Secret (rfc_config\<lparr>Period := 0\<rparr>)))
             = Some rfc_key"
    using rfc_secret [of demo_golib] by simp
  from GenerateCodeAt_zero_period [of rfc_config demo_golib "59 * Second"] p
  have a: "Seconds_uint64 demo_golib (Period rfc_config) \<noteq> 0" by blast
  from GenerateCodeAt_zero_period [of "rfc_config\<lparr>Period := 0\<rparr>" demo_golib "59 * Second"] z s
  have b: "GenerateCodeAt demo_golib (rfc_config\<lparr>Period := 0\<rparr>) (59 * Second) = Panics DivideByZero"
    by simp
  from p z a b show ?thesis by blast
qed

end
